theory Spec2Isabelle
  imports Main "HOL-Library.Word" "HOL-Library.Sublist"
begin

section \<open>Values of the host language\<close>

text \<open>
  The program is TypeScript. A \<open>Uint8Array\<close> is a list of bytes, a JavaScript string a
  \<open>string\<close>. A \<open>number\<close> is modelled on the integers, with \<open>NaN\<close> added where the code
  can produce it; fractions and infinities are outside the model.
\<close>

type_synonym bytes = "8 word list"

datatype js_number = Num int | NaN

text \<open>
  A property of an options object is in one of three states that the code tells apart
  (object spread copies a key that is present with the value \<open>undefined\<close>, and
  \<open>"maxAge" in cookieOptions\<close> asks for the key alone): the key is absent, it is present
  and \<open>undefined\<close>, or it is present with a value.
\<close>

datatype 'a field = Absent | Undefined | Def 'a

definition map_field :: "('a \<Rightarrow> 'b) \<Rightarrow> 'a field \<Rightarrow> 'b field" where
  "map_field f x = (case x of Absent \<Rightarrow> Absent | Undefined \<Rightarrow> Undefined | Def v \<Rightarrow> Def (f v))"

text \<open>JSON data, as \<open>JSON.parse\<close> returns it and \<open>JSON.stringify\<close> reads it.\<close>

datatype json =
    JNull
  | JBool bool
  | JNum int
  | JStr string
  | JArr "json list"
  | JObj "(string \<times> json) list"

text \<open>What \<open>sealData\<close> accepts and \<open>unsealData\<close> returns: JSON data or raw bytes.\<close>

datatype js_data = Json json | Bytes bytes

text \<open>
  A thrown value: an instance of \<open>Error\<close> with its message (\<open>TypeError\<close>,
  \<open>SyntaxError\<close> and \<open>DOMException\<close> are instances of \<open>Error\<close>), or anything else.
\<close>

datatype thrown = ErrorObj string | NonError string

definition and_then :: "thrown + 'a \<Rightarrow> ('a \<Rightarrow> thrown + 'b) \<Rightarrow> thrown + 'b" where
  "and_then r f = (case r of Inl e \<Rightarrow> Inl e | Inr x \<Rightarrow> f x)"

section \<open>Session options and their resolution\<close>

datatype sameSite_opt = SameSiteTrue | SameSiteFalse | Lax | Strict | NoneSite

datatype priority_opt = Low | Medium | High

text \<open>\<open>CookieOptions\<close>: the options of the cookie library without \<open>encode\<close>.
  A \<open>Date\<close> is kept as its time value.\<close>

record cookie_options =
  domain :: "string field"
  expires :: "int field"
  httpOnly :: "bool field"
  maxAge :: "js_number field"
  partitioned :: "bool field"
  path :: "string field"
  priority :: "priority_opt field"
  sameSite :: "sameSite_opt field"
  secure :: "bool field"

text \<open>\<open>type Password = PasswordsMap | string\<close>; a map keeps its keys as strings.\<close>

datatype password = PasswordString string | PasswordsMap "(string \<times> string) list"

text \<open>\<open>SessionOptions\<close> as the caller gives them. \<open>opt_cookieOptions = None\<close> stands for a
  missing (or falsy) \<open>cookieOptions\<close>.\<close>

record session_options =
  opt_cookieName :: string
  opt_password :: password
  opt_ttl :: "int field"
  opt_cookieOptions :: "cookie_options option"

text \<open>The resolved configuration (\<open>Required<SessionOptions>\<close>). \<open>ttl = None\<close> is the value
  \<open>undefined\<close>, which the spread leaves there when the caller passes \<open>ttl: undefined\<close>.\<close>

record session_config =
  cookieName :: string
  password :: password
  ttl :: "int option"
  cookieOptions :: cookie_options

definition timestampSkewSec :: int where
  "timestampSkewSec = 60"

definition fourteenDaysInSeconds :: int where
  "fourteenDaysInSeconds = 14 * 24 * 3600"

definition currentMajorVersion :: int where
  "currentMajorVersion = 2"

definition versionDelimiter :: char where
  "versionDelimiter = CHR ''~''"

definition no_cookie_options :: cookie_options where
  "no_cookie_options =
     \<lparr>domain = Absent, expires = Absent, httpOnly = Absent, maxAge = Absent,
      partitioned = Absent, path = Absent, priority = Absent, sameSite = Absent,
      secure = Absent\<rparr>"

definition defaultOptions_ttl :: int where
  "defaultOptions_ttl = fourteenDaysInSeconds"

definition defaultOptions_cookieOptions :: cookie_options where
  "defaultOptions_cookieOptions =
     no_cookie_options\<lparr>httpOnly := Def True, secure := Def True, sameSite := Def Lax,
       path := Def ''/''\<rparr>"

text \<open>Object spread \<open>{...base, ...over}\<close>, one key at a time: a key of \<open>over\<close> wins
  whenever it is present, also with the value \<open>undefined\<close>.\<close>

definition spread_field :: "'a field \<Rightarrow> 'a field \<Rightarrow> 'a field" where
  "spread_field base over = (case over of Absent \<Rightarrow> base | _ \<Rightarrow> over)"

definition spread_cookieOptions :: "cookie_options \<Rightarrow> cookie_options \<Rightarrow> cookie_options" where
  "spread_cookieOptions base over =
     \<lparr>domain = spread_field (domain base) (domain over),
      expires = spread_field (expires base) (expires over),
      httpOnly = spread_field (httpOnly base) (httpOnly over),
      maxAge = spread_field (maxAge base) (maxAge over),
      partitioned = spread_field (partitioned base) (partitioned over),
      path = spread_field (path base) (path over),
      priority = spread_field (priority base) (priority over),
      sameSite = spread_field (sameSite base) (sameSite over),
      secure = spread_field (secure base) (secure over)\<rparr>"

definition normalizeStringPasswordToMap :: "password \<Rightarrow> (string \<times> string) list" where
  "normalizeStringPasswordToMap pw =
     (case pw of PasswordString s \<Rightarrow> [(''1'', s)] | PasswordsMap m \<Rightarrow> m)"

definition computeCookieMaxAge :: "int \<Rightarrow> int" where
  "computeCookieMaxAge t = (if t = 0 then 2147483647 else t - timestampSkewSec)"

text \<open>
  \<open>getSessionConfig\<close>. The first spread gives \<open>ttl\<close> the default when the caller's
  key is absent. With \<open>ttl\<close> undefined, \<open>computeCookieMaxAge\<close> would compute
  \<open>undefined - 60\<close>, which is \<open>NaN\<close>.
\<close>

definition getSessionConfig :: "session_options \<Rightarrow> session_config" where
  "getSessionConfig sessionOptions =
     (let options =
        \<lparr>cookieName = opt_cookieName sessionOptions,
         password = opt_password sessionOptions,
         ttl = (case opt_ttl sessionOptions of
                  Absent \<Rightarrow> Some defaultOptions_ttl
                | Undefined \<Rightarrow> None
                | Def t \<Rightarrow> Some t),
         cookieOptions =
           spread_cookieOptions defaultOptions_cookieOptions
             (case opt_cookieOptions sessionOptions of
                None \<Rightarrow> no_cookie_options
              | Some co \<Rightarrow> co)\<rparr>
      in case opt_cookieOptions sessionOptions of
           None \<Rightarrow>
             options\<lparr>cookieOptions := (cookieOptions options)
               \<lparr>maxAge := Def (case ttl options of
                                 Some t \<Rightarrow> Num (computeCookieMaxAge t)
                               | None \<Rightarrow> NaN)\<rparr>\<rparr>
         | Some co \<Rightarrow>
             (if maxAge co \<noteq> Absent then
                (if maxAge co = Undefined then options\<lparr>ttl := Some 0\<rparr> else options)
              else
                options\<lparr>cookieOptions := (cookieOptions options)
                  \<lparr>maxAge := Def (case ttl options of
                                    Some t \<Rightarrow> Num (computeCookieMaxAge t)
                                  | None \<Rightarrow> NaN)\<rparr>\<rparr>))"


section \<open>The libraries behind the sealing engine\<close>

text \<open>
  \<open>core.ts\<close> computes nothing cryptographic itself: it calls ML-KEM-1024 and ML-DSA-87
  of \<open>@noble/post-quantum\<close>, AES-GCM of \<open>crypto.subtle\<close>, \<open>base64url\<close> of
  \<open>rfc4648\<close>, \<open>TextEncoder\<close>, \<open>TextDecoder\<close>, \<open>JSON\<close> and the \<open>cookie\<close> package.
  None of them is part of the repository, so they are a parameter of the model: a record
  with one function per call the source makes, taking the arguments in the order in which
  the source passes them. A call that can throw returns a sum.

  The randomised calls take their random bytes as an argument: \<open>kem_encapsulate\<close> and
  \<open>dsa_sign\<close> draw them inside the library.
\<close>

datatype key_usage = Encrypt | Decrypt

datatype crypto_key = CryptoKey bytes key_usage

record pq_lib =
  kem_keygen :: "bytes \<Rightarrow> thrown + (bytes \<times> bytes)"
  kem_encapsulate :: "bytes \<Rightarrow> bytes \<Rightarrow> thrown + (bytes \<times> bytes)"
  kem_decapsulate :: "bytes \<Rightarrow> bytes \<Rightarrow> thrown + bytes"
  dsa_keygen :: "bytes \<Rightarrow> thrown + (bytes \<times> bytes)"
  dsa_sign :: "bytes \<Rightarrow> bytes \<Rightarrow> bytes \<Rightarrow> thrown + bytes"
  dsa_verify :: "bytes \<Rightarrow> bytes \<Rightarrow> bytes \<Rightarrow> thrown + bool"
  subtle_importKey :: "bytes \<Rightarrow> key_usage \<Rightarrow> thrown + crypto_key"
  subtle_encrypt :: "bytes \<Rightarrow> crypto_key \<Rightarrow> bytes \<Rightarrow> thrown + bytes"
  subtle_decrypt :: "bytes \<Rightarrow> crypto_key \<Rightarrow> bytes \<Rightarrow> thrown + bytes"
  b64_stringify :: "bytes \<Rightarrow> string"
  b64_parse :: "bool \<Rightarrow> json option \<Rightarrow> thrown + bytes"
  text_encode :: "string \<Rightarrow> bytes"
  text_decode :: "bytes \<Rightarrow> string"
  json_stringify :: "json \<Rightarrow> string"
  json_parse :: "string \<Rightarrow> thrown + json"
  cookie_serialize :: "string \<Rightarrow> string \<Rightarrow> cookie_options \<Rightarrow> thrown + string"
  cookie_parse :: "string \<Rightarrow> (string \<times> string) list"
  options_stringify :: "cookie_options \<Rightarrow> string"

text \<open>
  \<^item> \<open>kem_keygen seed\<close> is \<open>ml_kem1024.keygen(seed)\<close>: the public and the secret key.
  \<^item> \<open>kem_encapsulate publicKey r\<close> is \<open>ml_kem1024.encapsulate(publicKey)\<close>: the KEM
    ciphertext and the shared secret.
  \<^item> \<open>kem_decapsulate a b\<close> is \<open>ml_kem1024.decapsulate(a, b)\<close>.
  \<^item> \<open>dsa_keygen seed\<close> is \<open>ml_dsa87.keygen(seed)\<close>: the public and the secret key;
    \<open>dsa_sign a b r\<close> is \<open>ml_dsa87.sign(a, b)\<close>, \<open>dsa_verify a b c\<close> is
    \<open>ml_dsa87.verify(a, b, c)\<close>.
  \<^item> \<open>subtle_importKey raw usage\<close> is \<open>crypto.subtle.importKey("raw", raw,
    {name: "AES-GCM", length: 256}, false, [usage])\<close>; \<open>subtle_encrypt iv key data\<close> and
    \<open>subtle_decrypt iv key data\<close> are AES-GCM under that initialisation vector.
  \<^item> \<open>b64_parse loose x\<close> is \<open>base64url.parse(x, {loose})\<close>; \<open>x\<close> is whatever value the
    source passes, \<open>None\<close> for \<open>undefined\<close>.
  \<^item> \<open>cookie_serialize name v options\<close> is \<open>serialize\<close> and \<open>cookie_parse\<close> is \<open>parse\<close>
    of the cookie package; \<open>options_stringify\<close> is \<open>JSON.stringify\<close> on cookie options.
\<close>

text \<open>The values \<open>randomBytes\<close> returns during one \<open>sealData\<close>, and the random bytes
  the two randomised library calls draw.\<close>

record seal_random =
  kemSeed :: bytes
  encapsRandom :: bytes
  iv :: bytes
  dsaSeed :: bytes
  signRandom :: bytes

text \<open>\<open>interface PQSealResult\<close>.\<close>

record pq_seal =
  ciphertext :: string
  publicKey :: string
  signature :: string
  signPublicKey :: string

text \<open>The options of \<open>sealData\<close> and \<open>unsealData\<close>: \<open>{ password: Password; ttl?: number }\<close>.\<close>

record seal_options =
  seal_password :: password
  seal_ttl :: "int option"

section \<open>The sealing engine\<close>

subsection \<open>Parsing a seal\<close>

text \<open>\<open>String.prototype.split\<close> with a separator of one character: it returns at
  least one part.\<close>

fun split_on :: "char \<Rightarrow> string \<Rightarrow> string list" where
  "split_on d [] = [[]]"
| "split_on d (c # cs) =
     (if c = d then [] # split_on d cs
      else (case split_on d cs of
              [] \<Rightarrow> [[c]]
            | p # ps \<Rightarrow> (c # p) # ps))"

text \<open>\<open>Number.parseInt(s, 10)\<close>: leading white space, an optional sign, then the
  longest run of decimal digits; \<open>NaN\<close> when there is no digit. (JavaScript rounds values
  beyond two to the power 53; the model keeps them exact.)\<close>

definition is_space :: "char \<Rightarrow> bool" where
  "is_space c = (c = CHR '' '' \<or> (9 \<le> (of_char c :: nat) \<and> (of_char c :: nat) \<le> 13))"

definition is_digit :: "char \<Rightarrow> bool" where
  "is_digit c = (48 \<le> (of_char c :: nat) \<and> (of_char c :: nat) \<le> 57)"

definition digits_value :: "string \<Rightarrow> int" where
  "digits_value ds = foldl (\<lambda>a c. 10 * a + (int (of_char c) - 48)) 0 ds"

definition parseInt10 :: "string \<Rightarrow> js_number" where
  "parseInt10 s =
     (let t = dropWhile is_space s;
          neg = (case t of c # _ \<Rightarrow> c = CHR ''-'' | [] \<Rightarrow> False);
          u = (case t of c # cs \<Rightarrow> (if c = CHR ''-'' \<or> c = CHR ''+'' then cs else t) | [] \<Rightarrow> t);
          ds = takeWhile is_digit u
      in if ds = [] then NaN
         else Num (if neg then - digits_value ds else digits_value ds))"

text \<open>The array destructuring \<open>const [a, b] = parts\<close>: a missing element is \<open>undefined\<close>.\<close>

definition element :: "'a list \<Rightarrow> nat \<Rightarrow> 'a option" where
  "element xs i = (if i < length xs then Some (xs ! i) else None)"

definition parseSeal :: "string \<Rightarrow> thrown + (string \<times> js_number option)" where
  "parseSeal seal =
     (let parts = split_on versionDelimiter seal;
          sealWithoutVersion = element parts 0;
          tokenVersionAsString = element parts 1;
          tokenVersion = (case tokenVersionAsString of
                            None \<Rightarrow> None
                          | Some v \<Rightarrow> Some (parseInt10 v))
      in case sealWithoutVersion of
           None \<Rightarrow> Inl (ErrorObj ''Invalid seal format: missing seal data'')
         | Some w \<Rightarrow> Inr (w, tokenVersion))"

subsection \<open>Sealing\<close>

text \<open>A natural number in decimal, as a template literal prints it.\<close>

fun decimal :: "nat \<Rightarrow> string" where
  "decimal n =
     (if n < 10 then [char_of (48 + n)]
      else decimal (n div 10) @ [char_of (48 + n mod 10)])"

declare decimal.simps [simp del]

text \<open>\<open>JSON.stringify(seal)\<close> reads the four members of the object literal in the order
  in which it was written.\<close>

definition seal_json :: "pq_seal \<Rightarrow> json" where
  "seal_json seal =
     JObj [(''ciphertext'', JStr (ciphertext seal)),
           (''publicKey'', JStr (publicKey seal)),
           (''signature'', JStr (signature seal)),
           (''signPublicKey'', JStr (signPublicKey seal))]"

text \<open>The part of a token before the delimiter, and the token: the last statement
  of \<open>sealData\<close>.\<close>

definition encodePayload :: "pq_lib \<Rightarrow> pq_seal \<Rightarrow> string" where
  "encodePayload L seal =
     b64_stringify L (text_encode L (json_stringify L (seal_json seal)))"

definition encodeSeal :: "pq_lib \<Rightarrow> pq_seal \<Rightarrow> string" where
  "encodeSeal L seal =
     encodePayload L seal @ [versionDelimiter] @ decimal (nat currentMajorVersion)"

text \<open>\<open>sealData\<close> up to the signature: the four byte arrays that go into the token.
  The KEM ciphertext and the secret key of the KEM key pair are dropped by the
  destructuring, as in the source; the initialisation vector is used and not kept.\<close>

record seal_bytes =
  encryptedData :: bytes
  kemPublicKey :: bytes
  signatureBytes :: bytes
  dsaPublicKey :: bytes

definition sealBytes :: "pq_lib \<Rightarrow> seal_random \<Rightarrow> js_data \<Rightarrow> thrown + seal_bytes" where
  "sealBytes L rnd data =
     and_then (kem_keygen L (kemSeed rnd)) (\<lambda>(pk, kemSecretKey).
     and_then (kem_encapsulate L pk (encapsRandom rnd)) (\<lambda>(kemCipherText, sharedSecret).
     let dataBytes = (case data of
                        Bytes b \<Rightarrow> b
                      | Json j \<Rightarrow> text_encode L (json_stringify L j))
     in
     and_then (subtle_importKey L sharedSecret Encrypt) (\<lambda>key.
     and_then (subtle_encrypt L (iv rnd) key dataBytes) (\<lambda>enc.
     and_then (dsa_keygen L (dsaSeed rnd)) (\<lambda>(spk, signSecretKey).
     and_then (dsa_sign L enc signSecretKey (signRandom rnd)) (\<lambda>sg.
     Inr \<lparr>encryptedData = enc, kemPublicKey = pk, signatureBytes = sg,
          dsaPublicKey = spk\<rparr>))))))"

text \<open>The object \<open>seal\<close>: each component in base64url.\<close>

definition toSeal :: "pq_lib \<Rightarrow> seal_bytes \<Rightarrow> pq_seal" where
  "toSeal L sb =
     \<lparr>ciphertext = b64_stringify L (encryptedData sb),
      publicKey = b64_stringify L (kemPublicKey sb),
      signature = b64_stringify L (signatureBytes sb),
      signPublicKey = b64_stringify L (dsaPublicKey sb)\<rparr>"

definition sealData :: "pq_lib \<Rightarrow> seal_random \<Rightarrow> js_data \<Rightarrow> seal_options \<Rightarrow> thrown + string" where
  "sealData L rnd data options =
     and_then (sealBytes L rnd data) (\<lambda>sb. Inr (encodeSeal L (toSeal L sb)))"

subsection \<open>Unsealing\<close>

text \<open>Reading a member of a parsed value: \<open>null.ciphertext\<close> throws a \<open>TypeError\<close>; an
  object gives the member or \<open>undefined\<close>; the four names read here are members of no
  other JSON value.\<close>

definition read_member :: "json \<Rightarrow> string \<Rightarrow> thrown + json option" where
  "read_member j k =
     (case j of
        JNull \<Rightarrow> Inl (ErrorObj (''Cannot read properties of null (reading '' @ k @ '')''))
      | JObj kvs \<Rightarrow> Inr (map_of kvs k)
      | _ \<Rightarrow> Inr None)"

text \<open>The regular expression of the \<open>catch\<close> clause, anchored at the start of the
  message.\<close>

definition seal_validity_message :: "string \<Rightarrow> bool" where
  "seal_validity_message m =
     list_ex (\<lambda>p. prefix p m)
       [''Invalid signature'', ''Invalid seal format'', ''Bad hmac value'',
        ''Cannot find password'', ''Incorrect number of sealed components'']"

definition recognised :: "thrown \<Rightarrow> bool" where
  "recognised e = (case e of ErrorObj m \<Rightarrow> seal_validity_message m | NonError _ \<Rightarrow> False)"

text \<open>The first statements of the \<open>try\<close> block of \<open>unsealData\<close>: the payload is
  decoded and parsed, then each of the four components is decoded.\<close>

definition decodeSeal :: "pq_lib \<Rightarrow> string \<Rightarrow> thrown + seal_bytes" where
  "decodeSeal L sealWithoutVersion =
     and_then (b64_parse L True (Some (JStr sealWithoutVersion))) (\<lambda>raw.
     and_then (json_parse L (text_decode L raw)) (\<lambda>sealData.
     and_then (read_member sealData ''ciphertext'') (\<lambda>m1.
     and_then (b64_parse L False m1) (\<lambda>ct.
     and_then (read_member sealData ''publicKey'') (\<lambda>m2.
     and_then (b64_parse L False m2) (\<lambda>pk.
     and_then (read_member sealData ''signature'') (\<lambda>m3.
     and_then (b64_parse L False m3) (\<lambda>sg.
     and_then (read_member sealData ''signPublicKey'') (\<lambda>m4.
     and_then (b64_parse L False m4) (\<lambda>spk.
     Inr \<lparr>encryptedData = ct, kemPublicKey = pk, signatureBytes = sg,
          dsaPublicKey = spk\<rparr>))))))))))"

text \<open>The rest of the \<open>try\<close> block: the signature is verified over the ciphertext;
  \<open>decapsulate\<close> is given the ciphertext of the data and the public key of the token;
  the data is decrypted under an initialisation vector of twelve zero bytes.\<close>

definition openSeal :: "pq_lib \<Rightarrow> seal_bytes \<Rightarrow> thrown + js_data" where
  "openSeal L sb =
     and_then (dsa_verify L (encryptedData sb) (signatureBytes sb) (dsaPublicKey sb)) (\<lambda>isValid.
     if \<not> isValid then Inl (ErrorObj ''Invalid signature'')
     else
     and_then (kem_decapsulate L (encryptedData sb) (kemPublicKey sb)) (\<lambda>sharedSecret.
     and_then (subtle_importKey L sharedSecret Decrypt) (\<lambda>key.
     and_then (subtle_decrypt L (replicate 12 0) key (encryptedData sb)) (\<lambda>decryptedData.
     (case json_parse L (text_decode L decryptedData) of
        Inr j \<Rightarrow> Inr (Json j)
      | Inl e \<Rightarrow> Inr (Bytes decryptedData))))))"

definition unseal_try :: "pq_lib \<Rightarrow> string \<Rightarrow> thrown + js_data" where
  "unseal_try L sealWithoutVersion =
     and_then (decodeSeal L sealWithoutVersion) (openSeal L)"

text \<open>\<open>unsealData\<close>: \<open>parseSeal\<close> runs before the \<open>try\<close>; the \<open>catch\<close> clause turns a
  recognised error into the empty object and throws every other value again.\<close>

definition unsealData :: "pq_lib \<Rightarrow> string \<Rightarrow> seal_options \<Rightarrow> thrown + js_data" where
  "unsealData L seal options =
     and_then (parseSeal seal) (\<lambda>(sealWithoutVersion, tokenVersion).
       case unseal_try L sealWithoutVersion of
         Inl e \<Rightarrow> (if recognised e then Inr (Json (JObj [])) else Inl e)
       | Inr v \<Rightarrow> Inr v)"

section \<open>The session object\<close>

text \<open>
  A plain JavaScript object: its own properties in the order of their creation, each with
  its value and its three attributes. A property holds JSON data or one of the three
  functions that \<open>getIronSession\<close> attaches. The session is such an object when the
  cookie unseals to a JSON object, and when there is no cookie.
\<close>

datatype operation = UpdateConfig | Save | Destroy

datatype prop_value = Data json | Method operation

record property =
  held :: prop_value
  enumerable :: bool
  writable :: bool
  configurable :: bool

type_synonym js_object = "(string \<times> property) list"

definition data_property :: "json \<Rightarrow> property" where
  "data_property v = \<lparr>held = Data v, enumerable = True, writable = True, configurable = True\<rparr>"

definition set_held :: "string \<Rightarrow> prop_value \<Rightarrow> js_object \<Rightarrow> js_object" where
  "set_held k v obj = map (\<lambda>(k', p). if k' = k then (k', p\<lparr>held := v\<rparr>) else (k', p)) obj"

text \<open>The object \<open>JSON.parse\<close> builds from the members of an object: a member creates an
  enumerable, writable, configurable property; a repeated key overwrites the value.\<close>

definition put_member :: "js_object \<Rightarrow> string \<times> json \<Rightarrow> js_object" where
  "put_member obj m =
     (case map_of obj (fst m) of
        None \<Rightarrow> obj @ [(fst m, data_property (snd m))]
      | Some p \<Rightarrow> set_held (fst m) (Data (snd m)) obj)"

definition parsed_object :: "(string \<times> json) list \<Rightarrow> js_object" where
  "parsed_object kvs = foldl put_member [] kvs"

text \<open>\<open>Object.defineProperty(obj, k, {value: v})\<close>: a new property gets the default
  attributes, all false; an existing property keeps its attributes and takes the value,
  unless it is neither configurable nor writable and holds another value.\<close>

definition define_value :: "string \<Rightarrow> prop_value \<Rightarrow> js_object \<Rightarrow> thrown + js_object" where
  "define_value k v obj =
     (case map_of obj k of
        None \<Rightarrow>
          Inr (obj @ [(k, \<lparr>held = v, enumerable = False, writable = False,
                            configurable = False\<rparr>)])
      | Some p \<Rightarrow>
          (if configurable p \<or> writable p \<or> held p = v then Inr (set_held k v obj)
           else Inl (ErrorObj (''Cannot redefine property: '' @ k))))"

text \<open>\<open>Object.defineProperties(session, {updateConfig: ..., save: ..., destroy: ...})\<close>.\<close>

definition defineProperties :: "js_object \<Rightarrow> thrown + js_object" where
  "defineProperties obj =
     and_then (define_value ''updateConfig'' (Method UpdateConfig) obj) (\<lambda>o1.
     and_then (define_value ''save'' (Method Save) o1) (\<lambda>o2.
     define_value ''destroy'' (Method Destroy) o2))"

text \<open>\<open>Object.keys\<close>: the names of the own enumerable properties.\<close>

definition object_keys :: "js_object \<Rightarrow> string list" where
  "object_keys obj = map fst (filter (\<lambda>(k, p). enumerable p) obj)"

text \<open>\<open>delete obj[k]\<close> in strict mode (the file is a module): a property that is not
  configurable throws a \<open>TypeError\<close>.\<close>

definition delete_property :: "string \<Rightarrow> js_object \<Rightarrow> thrown + js_object" where
  "delete_property k obj =
     (case map_of obj k of
        None \<Rightarrow> Inr obj
      | Some p \<Rightarrow>
          (if configurable p then Inr (filter (\<lambda>(k', p'). k' \<noteq> k) obj)
           else Inl (ErrorObj (''Cannot delete property '' @ k))))"

text \<open>The loop of \<open>destroy\<close> over the keys read before it starts. It returns what was
  thrown, if anything, and the object as the loop left it.\<close>

primrec delete_keys :: "string list \<Rightarrow> js_object \<Rightarrow> thrown option \<times> js_object" where
  "delete_keys [] obj = (None, obj)"
| "delete_keys (k # ks) obj =
     (case delete_property k obj of
        Inl e \<Rightarrow> (Some e, obj)
      | Inr obj' \<Rightarrow> delete_keys ks obj')"

text \<open>What \<open>JSON.stringify(session)\<close> reads: the own enumerable properties that hold
  data, in order. A property that holds a function is left out.\<close>

definition enumerable_data :: "js_object \<Rightarrow> json" where
  "enumerable_data obj =
     JObj (List.map_filter
       (\<lambda>(k, p). if enumerable p then (case held p of Data v \<Rightarrow> Some (k, v) | Method m \<Rightarrow> None)
                  else None) obj)"

text \<open>The caller's own writes, in strict mode: \<open>session[k] = v\<close> and
  \<open>delete session[k]\<close>.\<close>

definition set_field :: "string \<Rightarrow> json \<Rightarrow> js_object \<Rightarrow> thrown + js_object" where
  "set_field k v obj =
     (case map_of obj k of
        None \<Rightarrow> Inr (obj @ [(k, data_property v)])
      | Some p \<Rightarrow>
          (if writable p then Inr (set_held k (Data v) obj)
           else Inl (ErrorObj (''Cannot assign to read only property '' @ k))))"

text \<open>
  \<open>unsealData\<close> can also return an array (the cookie unsealed to a JSON array) or a
  \<open>Uint8Array\<close> (the decrypted bytes were not JSON). These are objects of their own kind:
  beside their named properties they have elements under the indices 0, 1, ... up to
  their length. An element of an array can be deleted, which leaves a hole and keeps the
  length; an element of a \<open>Uint8Array\<close> cannot.
\<close>

datatype elements = ArrayElements "json option list" | ByteElements bytes

record exotic_object =
  elements :: elements
  named :: js_object






text \<open>What \<open>sealData(session)\<close> seals. A \<open>Uint8Array\<close> is sealed as its bytes
  (\<open>data instanceof Uint8Array\<close>). Of an array \<open>JSON.stringify\<close> reads the elements up
  to the length, a hole as \<open>null\<close>, and no named property.\<close>

definition exotic_data :: "exotic_object \<Rightarrow> js_data" where
  "exotic_data x =
     (case elements x of
        ArrayElements xs \<Rightarrow> Json (JArr (map (\<lambda>e. case e of None \<Rightarrow> JNull | Some v \<Rightarrow> v) xs))
      | ByteElements b \<Rightarrow> Bytes b)"

text \<open>
  The value a session starts from, with the three operations attached.
  \<open>Object.defineProperties\<close> throws a \<open>TypeError\<close> on a value that is not an object. On
  an array and on a \<open>Uint8Array\<close> the three operations become named properties.
\<close>

datatype ('x, 'a) loaded = Threw thrown | Exotic 'x | Loaded 'a

definition attach :: "js_data \<Rightarrow> (exotic_object, js_object) loaded" where
  "attach session =
     (case session of
        Bytes b \<Rightarrow>
          (case defineProperties [] of
             Inl e \<Rightarrow> Threw e
           | Inr ops \<Rightarrow> Exotic \<lparr>elements = ByteElements b, named = ops\<rparr>)
      | Json j \<Rightarrow>
          (case j of
             JObj kvs \<Rightarrow>
               (case defineProperties (parsed_object kvs) of
                  Inl e \<Rightarrow> Threw e
                | Inr obj \<Rightarrow> Loaded obj)
           | JArr xs \<Rightarrow>
               (case defineProperties [] of
                  Inl e \<Rightarrow> Threw e
                | Inr ops \<Rightarrow> Exotic \<lparr>elements = ArrayElements (map Some xs), named = ops\<rparr>)
           | _ \<Rightarrow> Threw (ErrorObj ''Object.defineProperties called on non-object'')))"

section \<open>The two transports\<close>

subsection \<open>Request and response\<close>

text \<open>A request is read for its cookie header only. A response is a Fetch \<open>Response\<close>
  (the values appended under \<open>set-cookie\<close>; its headers are taken to be mutable, as
  those of a response the caller constructs are) or a Node \<open>ServerResponse\<close> (its
  \<open>headersSent\<close> flag and its \<open>set-cookie\<close> header: none, one value, or a list).\<close>

datatype request = Request "string option"

datatype header_value = NoHeader | SingleHeader string | ListHeader "string list"

datatype response = FetchResponse "string list" | ServerResponse bool header_value

definition getCookie :: "pq_lib \<Rightarrow> request \<Rightarrow> string \<Rightarrow> string" where
  "getCookie L req name =
     (case req of Request header \<Rightarrow>
        (case map_of (cookie_parse L (case header of None \<Rightarrow> [] | Some h \<Rightarrow> h)) name of
           None \<Rightarrow> []
         | Some v \<Rightarrow> v))"

definition header_list :: "header_value \<Rightarrow> string list" where
  "header_list h = (case h of NoHeader \<Rightarrow> [] | SingleHeader x \<Rightarrow> [x] | ListHeader xs \<Rightarrow> xs)"

text \<open>\<open>res.setHeader\<close> of a Node response throws once the headers are sent.\<close>

definition headers_locked :: thrown where
  "headers_locked = ErrorObj ''Cannot set headers after they are sent to the client''"

definition setCookie :: "response \<Rightarrow> string \<Rightarrow> thrown + response" where
  "setCookie res cookieValue =
     (case res of
        FetchResponse cs \<Rightarrow> Inr (FetchResponse (cs @ [cookieValue]))
      | ServerResponse sent h \<Rightarrow>
          (if sent then Inl headers_locked
           else Inr (ServerResponse sent (ListHeader (header_list h @ [cookieValue])))))"

text \<open>\<open>"headersSent" in res && res.headersSent\<close>.\<close>

definition headers_sent :: "response \<Rightarrow> bool" where
  "headers_sent res = (case res of FetchResponse cs \<Rightarrow> False | ServerResponse sent h \<Rightarrow> sent)"

text \<open>The cookies a response carries.\<close>

definition set_cookies :: "response \<Rightarrow> string list" where
  "set_cookies res = (case res of FetchResponse cs \<Rightarrow> cs | ServerResponse sent h \<Rightarrow> header_list h)"

subsection \<open>Cookie store\<close>

text \<open>A cookie store answers \<open>get\<close> from the cookies of the request and records every
  \<open>set(name, value, options)\<close>.\<close>

record cookie_store =
  jar :: "(string \<times> string) list"
  written :: "(string \<times> string \<times> cookie_options) list"

definition getServerActionCookie :: "string \<Rightarrow> cookie_store \<Rightarrow> string" where
  "getServerActionCookie name cookieHandler =
     (case map_of (jar cookieHandler) name of None \<Rightarrow> [] | Some v \<Rightarrow> v)"

definition store_set :: "cookie_store \<Rightarrow> string \<Rightarrow> string \<Rightarrow> cookie_options \<Rightarrow> cookie_store" where
  "store_set st name v options = st\<lparr>written := written st @ [(name, v, options)]\<rparr>"

section \<open>The session lifecycle\<close>

text \<open>The state one call of \<open>getIronSession\<close> closes over: the session object, the
  variable \<open>sessionConfig\<close>, the password map, and the response or the cookie store.\<close>

record rr_session =
  rr_obj :: js_object
  rr_config :: session_config
  rr_passwords :: "(string \<times> string) list"
  rr_res :: response

record cs_session =
  cs_obj :: js_object
  cs_config :: session_config
  cs_passwords :: "(string \<times> string) list"
  cs_store :: cookie_store

text \<open>The same state when the session object is an array or a \<open>Uint8Array\<close>.\<close>

record rr_exotic =
  xr_obj :: exotic_object
  xr_config :: session_config
  xr_passwords :: "(string \<times> string) list"
  xr_res :: response

record cs_exotic =
  xc_obj :: exotic_object
  xc_config :: session_config
  xc_passwords :: "(string \<times> string) list"
  xc_store :: cookie_store

definition missing_cookie_name :: thrown where
  "missing_cookie_name = ErrorObj ''iron-session: Bad usage. Missing cookie name.''"

definition missing_password :: thrown where
  "missing_password = ErrorObj ''iron-session: Bad usage. Missing password.''"

definition short_password :: thrown where
  "short_password =
     ErrorObj ''iron-session: Bad usage. Password must be at least 32 characters long.''"

definition headers_already_sent :: thrown where
  "headers_already_sent =
     ErrorObj (''iron-session: Cannot set session cookie: session.save() was called after ''
       @ ''headers were sent. Make sure to call it before any res.send() or res.end()'')"

definition cookie_too_big :: "nat \<Rightarrow> thrown" where
  "cookie_too_big n =
     ErrorObj (''iron-session: Cookie length is too big ('' @ decimal n
       @ '' bytes), browsers will refuse it. Try to remove some data.'')"

text \<open>\<open>!sessionOptions.password\<close>: of the values of the type only the empty string is
  falsy.\<close>

definition falsy_password :: "password \<Rightarrow> bool" where
  "falsy_password pw = (case pw of PasswordString s \<Rightarrow> s = [] | PasswordsMap m \<Rightarrow> False)"

text \<open>The checks both entry points make before they read the cookie.\<close>

definition check_options :: "session_options \<Rightarrow> thrown option" where
  "check_options sessionOptions =
     (if opt_cookieName sessionOptions = [] then Some missing_cookie_name
      else if falsy_password (opt_password sessionOptions) then Some missing_password
      else if list_ex (\<lambda>pw. length pw < 32)
                (map snd (normalizeStringPasswordToMap (opt_password sessionOptions)))
        then Some short_password
      else None)"

text \<open>The value the session starts from: the unsealed cookie, or \<open>{}\<close> without one.\<close>

definition initial_value ::
    "pq_lib \<Rightarrow> string \<Rightarrow> (string \<times> string) list \<Rightarrow> session_config \<Rightarrow> thrown + js_data" where
  "initial_value L sealFromCookies passwordsMap sessionConfig =
     (if sealFromCookies \<noteq> [] then
        unsealData L sealFromCookies
          \<lparr>seal_password = PasswordsMap passwordsMap, seal_ttl = ttl sessionConfig\<rparr>
      else Inr (Json (JObj [])))"

text \<open>\<open>getIronSession(req, res, sessionOptions)\<close>. The first checks of the source
  (an argument that is missing altogether) guard against calls that the types exclude;
  the model starts from well-typed arguments, one function for each overload. Promises
  are modelled by their results.\<close>

definition getIronSession ::
    "pq_lib \<Rightarrow> request \<Rightarrow> response \<Rightarrow> session_options \<Rightarrow> (rr_exotic, rr_session) loaded" where
  "getIronSession L req res sessionOptions =
     (case check_options sessionOptions of
        Some e \<Rightarrow> Threw e
      | None \<Rightarrow>
          (let passwordsMap = normalizeStringPasswordToMap (opt_password sessionOptions);
               sessionConfig = getSessionConfig sessionOptions;
               sealFromCookies = getCookie L req (cookieName sessionConfig)
           in case initial_value L sealFromCookies passwordsMap sessionConfig of
                Inl e \<Rightarrow> Threw e
              | Inr session \<Rightarrow>
                  (case attach session of
                     Threw e \<Rightarrow> Threw e
                   | Exotic x \<Rightarrow>
                       Exotic \<lparr>xr_obj = x, xr_config = sessionConfig,
                               xr_passwords = passwordsMap, xr_res = res\<rparr>
                   | Loaded obj \<Rightarrow>
                       Loaded \<lparr>rr_obj = obj, rr_config = sessionConfig,
                               rr_passwords = passwordsMap, rr_res = res\<rparr>)))"

text \<open>\<open>getIronSessionFromCookieStore\<close>, which \<open>getIronSession(cookieStore,
  sessionOptions)\<close> calls.\<close>

definition getIronSessionFromCookieStore ::
    "pq_lib \<Rightarrow> cookie_store \<Rightarrow> session_options \<Rightarrow> (cs_exotic, cs_session) loaded" where
  "getIronSessionFromCookieStore L cookieStore sessionOptions =
     (case check_options sessionOptions of
        Some e \<Rightarrow> Threw e
      | None \<Rightarrow>
          (let passwordsMap = normalizeStringPasswordToMap (opt_password sessionOptions);
               sessionConfig = getSessionConfig sessionOptions;
               sealFromCookies = getServerActionCookie (cookieName sessionConfig) cookieStore
           in case initial_value L sealFromCookies passwordsMap sessionConfig of
                Inl e \<Rightarrow> Threw e
              | Inr session \<Rightarrow>
                  (case attach session of
                     Threw e \<Rightarrow> Threw e
                   | Exotic x \<Rightarrow>
                       Exotic \<lparr>xc_obj = x, xc_config = sessionConfig,
                               xc_passwords = passwordsMap, xc_store = cookieStore\<rparr>
                   | Loaded obj \<Rightarrow>
                       Loaded \<lparr>cs_obj = obj, cs_config = sessionConfig,
                               cs_passwords = passwordsMap, cs_store = cookieStore\<rparr>)))"

subsection \<open>The operations of a request/response session\<close>

text \<open>Each operation returns what it threw, if anything, and the state it left.\<close>

definition rr_updateConfig :: "session_options \<Rightarrow> rr_session \<Rightarrow> rr_session" where
  "rr_updateConfig newSessionOptions st = st\<lparr>rr_config := getSessionConfig newSessionOptions\<rparr>"

text \<open>The arguments \<open>save\<close> passes to \<open>sealData\<close>.\<close>

definition rr_seal_input :: "rr_session \<Rightarrow> js_data \<times> seal_options" where
  "rr_seal_input st =
     (Json (enumerable_data (rr_obj st)),
      \<lparr>seal_password = PasswordsMap (rr_passwords st), seal_ttl = ttl (rr_config st)\<rparr>)"

definition rr_save :: "pq_lib \<Rightarrow> seal_random \<Rightarrow> rr_session \<Rightarrow> thrown option \<times> rr_session" where
  "rr_save L rnd st =
     (if headers_sent (rr_res st) then (Some headers_already_sent, st)
      else
        (case sealData L rnd (fst (rr_seal_input st)) (snd (rr_seal_input st)) of
           Inl e \<Rightarrow> (Some e, st)
         | Inr seal \<Rightarrow>
             (case cookie_serialize L (cookieName (rr_config st)) seal
                     (cookieOptions (rr_config st)) of
                Inl e \<Rightarrow> (Some e, st)
              | Inr cookieValue \<Rightarrow>
                  (if length cookieValue > 4096
                   then (Some (cookie_too_big (length cookieValue)), st)
                   else (case setCookie (rr_res st) cookieValue of
                           Inl e \<Rightarrow> (Some e, st)
                         | Inr res \<Rightarrow> (None, st\<lparr>rr_res := res\<rparr>))))))"

definition rr_destroy :: "pq_lib \<Rightarrow> rr_session \<Rightarrow> thrown option \<times> rr_session" where
  "rr_destroy L st =
     (case delete_keys (object_keys (rr_obj st)) (rr_obj st) of
        (Some e, obj) \<Rightarrow> (Some e, st\<lparr>rr_obj := obj\<rparr>)
      | (None, obj) \<Rightarrow>
          (case cookie_serialize L (cookieName (rr_config st)) []
                  ((cookieOptions (rr_config st))\<lparr>maxAge := Def (Num 0)\<rparr>) of
             Inl e \<Rightarrow> (Some e, st\<lparr>rr_obj := obj\<rparr>)
           | Inr cookieValue \<Rightarrow>
               (case setCookie (rr_res st) cookieValue of
                  Inl e \<Rightarrow> (Some e, st\<lparr>rr_obj := obj\<rparr>)
                | Inr res \<Rightarrow> (None, st\<lparr>rr_obj := obj, rr_res := res\<rparr>))))"

subsection \<open>The operations of a cookie-store session\<close>

definition cs_updateConfig :: "session_options \<Rightarrow> cs_session \<Rightarrow> cs_session" where
  "cs_updateConfig newSessionOptions st = st\<lparr>cs_config := getSessionConfig newSessionOptions\<rparr>"

definition cs_seal_input :: "cs_session \<Rightarrow> js_data \<times> seal_options" where
  "cs_seal_input st =
     (Json (enumerable_data (cs_obj st)),
      \<lparr>seal_password = PasswordsMap (cs_passwords st), seal_ttl = ttl (cs_config st)\<rparr>)"

definition cs_save :: "pq_lib \<Rightarrow> seal_random \<Rightarrow> cs_session \<Rightarrow> thrown option \<times> cs_session" where
  "cs_save L rnd st =
     (case sealData L rnd (fst (cs_seal_input st)) (snd (cs_seal_input st)) of
        Inl e \<Rightarrow> (Some e, st)
      | Inr seal \<Rightarrow>
          (let cookieLength =
                 length (cookieName (cs_config st)) + length seal
                 + length (options_stringify L (cookieOptions (cs_config st)))
           in if cookieLength > 4096 then (Some (cookie_too_big cookieLength), st)
              else (None, st\<lparr>cs_store := store_set (cs_store st) (cookieName (cs_config st))
                                            seal (cookieOptions (cs_config st))\<rparr>)))"

definition cs_destroy :: "cs_session \<Rightarrow> thrown option \<times> cs_session" where
  "cs_destroy st =
     (case delete_keys (object_keys (cs_obj st)) (cs_obj st) of
        (Some e, obj) \<Rightarrow> (Some e, st\<lparr>cs_obj := obj\<rparr>)
      | (None, obj) \<Rightarrow>
          (None, st\<lparr>cs_obj := obj,
                    cs_store := store_set (cs_store st) (cookieName (cs_config st)) []
                                  ((cookieOptions (cs_config st))\<lparr>maxAge := Def (Num 0)\<rparr>)\<rparr>))"

subsection \<open>The same operations on an array or a \<open>Uint8Array\<close>\<close>

text \<open>The functions are those of the two subsections above, closed over an object of
  the other kind: \<open>Object.keys\<close>, \<open>delete\<close> and what \<open>sealData\<close> reads are those of
  that kind.\<close>

definition xr_updateConfig :: "session_options \<Rightarrow> rr_exotic \<Rightarrow> rr_exotic" where
  "xr_updateConfig newSessionOptions st = st\<lparr>xr_config := getSessionConfig newSessionOptions\<rparr>"




definition xc_updateConfig :: "session_options \<Rightarrow> cs_exotic \<Rightarrow> cs_exotic" where
  "xc_updateConfig newSessionOptions st = st\<lparr>xc_config := getSessionConfig newSessionOptions\<rparr>"

definition xc_seal_input :: "cs_exotic \<Rightarrow> js_data \<times> seal_options" where
  "xc_seal_input st =
     (exotic_data (xc_obj st),
      \<lparr>seal_password = PasswordsMap (xc_passwords st), seal_ttl = ttl (xc_config st)\<rparr>)"

definition xc_save :: "pq_lib \<Rightarrow> seal_random \<Rightarrow> cs_exotic \<Rightarrow> thrown option \<times> cs_exotic" where
  "xc_save L rnd st =
     (case sealData L rnd (fst (xc_seal_input st)) (snd (xc_seal_input st)) of
        Inl e \<Rightarrow> (Some e, st)
      | Inr seal \<Rightarrow>
          (let cookieLength =
                 length (cookieName (xc_config st)) + length seal
                 + length (options_stringify L (cookieOptions (xc_config st)))
           in if cookieLength > 4096 then (Some (cookie_too_big cookieLength), st)
              else (None, st\<lparr>xc_store := store_set (xc_store st) (cookieName (xc_config st))
                                            seal (cookieOptions (xc_config st))\<rparr>)))"


section \<open>A small instance of the libraries\<close>

text \<open>
  The theorems below hold for every library record. Where a statement must be closed
  (an example, a counterexample) it is evaluated on \<open>demo_lib\<close>, a stand-in that is small
  enough to run in the logic: keys of four and six bytes instead of 1568 and 3168,
  checksums instead of lattice signatures, an additive pad instead of AES, base 16 instead
  of base 64, a \<open>Date\<close> printed as its time value. It has the interface of the real
  libraries and their checks on the length of keys and seeds, each answered with a thrown
  \<open>Error\<close>. Its seals are short, where a real seal (a 1568-byte key, a 2592-byte key and
  a 4627-byte signature in base 64) is longer than any cookie may be.
\<close>

definition demo_length_error :: "nat \<Rightarrow> nat \<Rightarrow> thrown" where
  "demo_length_error want got =
     ErrorObj (''Uint8Array expected of length '' @ decimal want @ '', got length=''
       @ decimal got)"

definition demo_kem_keygen :: "bytes \<Rightarrow> thrown + (bytes \<times> bytes)" where
  "demo_kem_keygen seed =
     (if length seed \<noteq> 64 then Inl (demo_length_error 64 (length seed))
      else Inr (map (\<lambda>b. b + 1) (take 4 seed), take 6 seed))"

definition demo_kem_encapsulate :: "bytes \<Rightarrow> bytes \<Rightarrow> thrown + (bytes \<times> bytes)" where
  "demo_kem_encapsulate pk r =
     (if length pk \<noteq> 4 then Inl (demo_length_error 4 (length pk))
      else if length r \<noteq> 32 then Inl (demo_length_error 32 (length r))
      else Inr (map2 (+) pk (take 4 r), concat (replicate 8 (take 4 r))))"

definition demo_kem_decapsulate :: "bytes \<Rightarrow> bytes \<Rightarrow> thrown + bytes" where
  "demo_kem_decapsulate cipherText secretKey =
     (if length secretKey \<noteq> 6 then Inl (demo_length_error 6 (length secretKey))
      else if length cipherText \<noteq> 4 then Inl (demo_length_error 4 (length cipherText))
      else Inr (concat (replicate 8
                  (map2 (\<lambda>c k. c - (k + 1)) cipherText (take 4 secretKey)))))"

definition demo_dsa_keygen :: "bytes \<Rightarrow> thrown + (bytes \<times> bytes)" where
  "demo_dsa_keygen seed =
     (if length seed \<noteq> 64 then Inl (demo_length_error 64 (length seed))
      else Inr (take 4 seed, take 4 seed @ [90]))"

definition demo_dsa_sign :: "bytes \<Rightarrow> bytes \<Rightarrow> bytes \<Rightarrow> thrown + bytes" where
  "demo_dsa_sign msg secretKey r =
     (if length secretKey \<noteq> 5 then Inl (demo_length_error 5 (length secretKey))
      else Inr (sum_list msg # take 4 secretKey))"

definition demo_dsa_verify :: "bytes \<Rightarrow> bytes \<Rightarrow> bytes \<Rightarrow> thrown + bool" where
  "demo_dsa_verify msg sg pk =
     (if length pk \<noteq> 4 then Inl (demo_length_error 4 (length pk))
      else Inr (sg = sum_list msg # pk))"

definition demo_importKey :: "bytes \<Rightarrow> key_usage \<Rightarrow> thrown + crypto_key" where
  "demo_importKey raw usage =
     (if length raw = 32 then Inr (CryptoKey raw usage)
      else Inl (ErrorObj ''Invalid key length''))"

definition demo_pad :: "bytes \<Rightarrow> bytes \<Rightarrow> 8 word" where
  "demo_pad raw v = sum_list raw + sum_list v"

definition demo_encrypt :: "bytes \<Rightarrow> crypto_key \<Rightarrow> bytes \<Rightarrow> thrown + bytes" where
  "demo_encrypt v key data =
     (case key of CryptoKey raw usage \<Rightarrow>
        (if usage \<noteq> Encrypt then Inl (ErrorObj ''key.usages does not permit this operation'')
         else Inr (map (\<lambda>b. b + demo_pad raw v) data @ [sum_list data + demo_pad raw v + 1])))"

definition demo_decrypt :: "bytes \<Rightarrow> crypto_key \<Rightarrow> bytes \<Rightarrow> thrown + bytes" where
  "demo_decrypt v key ct =
     (case key of CryptoKey raw usage \<Rightarrow>
        (if usage \<noteq> Decrypt then Inl (ErrorObj ''key.usages does not permit this operation'')
         else if ct = [] then
           Inl (ErrorObj ''The operation failed for an operation-specific reason'')
         else
           (let data = map (\<lambda>b. b - demo_pad raw v) (butlast ct)
            in if last ct = sum_list data + demo_pad raw v + 1 then Inr data
               else Inl (ErrorObj ''The operation failed for an operation-specific reason''))))"

definition hex_digit :: "nat \<Rightarrow> char" where
  "hex_digit n = (if n < 10 then char_of (48 + n) else char_of (87 + n))"

definition hex_value :: "char \<Rightarrow> nat option" where
  "hex_value c =
     (let n = (of_char c :: nat)
      in if 48 \<le> n \<and> n \<le> 57 then Some (n - 48)
         else if 97 \<le> n \<and> n \<le> 102 then Some (n - 87)
         else None)"

definition demo_b64_stringify :: "bytes \<Rightarrow> string" where
  "demo_b64_stringify bs =
     concat (map (\<lambda>b. [hex_digit (unat b div 16), hex_digit (unat b mod 16)]) bs)"

fun hex_parse :: "string \<Rightarrow> thrown + bytes" where
  "hex_parse [] = Inr []"
| "hex_parse [c] = Inl (ErrorObj ''Unexpected end of data'')"
| "hex_parse (a # b # cs) =
     (case hex_value a of
        None \<Rightarrow> Inl (ErrorObj (''Invalid character '' @ [a]))
      | Some x \<Rightarrow>
          (case hex_value b of
             None \<Rightarrow> Inl (ErrorObj (''Invalid character '' @ [b]))
           | Some y \<Rightarrow> and_then (hex_parse cs) (\<lambda>bs. Inr (of_nat (16 * x + y) # bs))))"

definition demo_b64_parse :: "bool \<Rightarrow> json option \<Rightarrow> thrown + bytes" where
  "demo_b64_parse loose x =
     (case x of
        Some (JStr t) \<Rightarrow> hex_parse t
      | _ \<Rightarrow> Inl (ErrorObj ''Cannot read properties of undefined (reading length)''))"

definition demo_text_encode :: "string \<Rightarrow> bytes" where
  "demo_text_encode t = map (\<lambda>c. of_nat (of_char c)) t"

definition demo_text_decode :: "bytes \<Rightarrow> string" where
  "demo_text_decode bs = map (\<lambda>b. char_of (unat b)) bs"

definition show_int :: "int \<Rightarrow> string" where
  "show_int i = (if i < 0 then CHR ''-'' # decimal (nat (- i)) else decimal (nat i))"

definition quoted :: "string \<Rightarrow> string" where
  "quoted t = CHR 0x22 # t @ [CHR 0x22]"

definition comma_separated :: "string list \<Rightarrow> string" where
  "comma_separated xs = (case xs of [] \<Rightarrow> [] | y # ys \<Rightarrow> y @ concat (map (\<lambda>z. CHR '','' # z) ys))"

text \<open>A JSON printer without escapes, and a parser for what it prints.\<close>

fun demo_json_stringify :: "json \<Rightarrow> string"
  and stringify_elements :: "json list \<Rightarrow> string list"
  and stringify_members :: "(string \<times> json) list \<Rightarrow> string list" where
  "demo_json_stringify JNull = ''null''"
| "demo_json_stringify (JBool b) = (if b then ''true'' else ''false'')"
| "demo_json_stringify (JNum i) = show_int i"
| "demo_json_stringify (JStr t) = quoted t"
| "demo_json_stringify (JArr xs) = CHR ''['' # comma_separated (stringify_elements xs) @ '']''"
| "demo_json_stringify (JObj kvs) = CHR ''{'' # comma_separated (stringify_members kvs) @ ''}''"
| "stringify_elements [] = []"
| "stringify_elements (x # xs) = demo_json_stringify x # stringify_elements xs"
| "stringify_members [] = []"
| "stringify_members (kv # kvs) =
     (quoted (fst kv) @ CHR '':'' # demo_json_stringify (snd kv)) # stringify_members kvs"

fun string_body :: "string \<Rightarrow> (string \<times> string) option" where
  "string_body [] = None"
| "string_body (c # cs) =
     (if c = CHR 0x22 then Some ([], cs)
      else if c = CHR 0x5C then None
      else map_option (\<lambda>(t, r). (c # t, r)) (string_body cs))"

definition number_token :: "string \<Rightarrow> (json \<times> string) option" where
  "number_token t =
     (let neg = (case t of c # _ \<Rightarrow> c = CHR ''-'' | [] \<Rightarrow> False);
          u = (if neg then tl t else t);
          ds = takeWhile is_digit u
      in if ds = [] then None
         else Some (JNum (if neg then - digits_value ds else digits_value ds),
                    dropWhile is_digit u))"

fun parse_json :: "nat \<Rightarrow> string \<Rightarrow> (json \<times> string) option"
  and parse_elements :: "nat \<Rightarrow> string \<Rightarrow> (json list \<times> string) option"
  and parse_members :: "nat \<Rightarrow> string \<Rightarrow> ((string \<times> json) list \<times> string) option" where
  "parse_json 0 t = None"
| "parse_json (Suc n) t =
     (case dropWhile is_space t of
        [] \<Rightarrow> None
      | c # cs \<Rightarrow>
          (if c = CHR 0x22 then map_option (\<lambda>(x, r). (JStr x, r)) (string_body cs)
           else if c = CHR ''{'' then
             (case dropWhile is_space cs of
                [] \<Rightarrow> None
              | d # ds \<Rightarrow>
                  (if d = CHR ''}'' then Some (JObj [], ds)
                   else map_option (\<lambda>(m, r). (JObj m, r)) (parse_members n cs)))
           else if c = CHR ''['' then
             (case dropWhile is_space cs of
                [] \<Rightarrow> None
              | d # ds \<Rightarrow>
                  (if d = CHR '']'' then Some (JArr [], ds)
                   else map_option (\<lambda>(m, r). (JArr m, r)) (parse_elements n cs)))
           else if prefix ''null'' (c # cs) then Some (JNull, drop 4 (c # cs))
           else if prefix ''true'' (c # cs) then Some (JBool True, drop 4 (c # cs))
           else if prefix ''false'' (c # cs) then Some (JBool False, drop 5 (c # cs))
           else number_token (c # cs)))"
| "parse_elements 0 t = None"
| "parse_elements (Suc n) t =
     (case parse_json n t of
        None \<Rightarrow> None
      | Some (v, r) \<Rightarrow>
          (case dropWhile is_space r of
             [] \<Rightarrow> None
           | d # ds \<Rightarrow>
               (if d = CHR '']'' then Some ([v], ds)
                else if d = CHR '','' then map_option (\<lambda>(vs, r'). (v # vs, r')) (parse_elements n ds)
                else None)))"
| "parse_members 0 t = None"
| "parse_members (Suc n) t =
     (case dropWhile is_space t of
        [] \<Rightarrow> None
      | q # qs \<Rightarrow>
          (if q \<noteq> CHR 0x22 then None
           else
             (case string_body qs of
                None \<Rightarrow> None
              | Some (k, r) \<Rightarrow>
                  (case dropWhile is_space r of
                     [] \<Rightarrow> None
                   | c # cs \<Rightarrow>
                       (if c \<noteq> CHR '':'' then None
                        else
                          (case parse_json n cs of
                             None \<Rightarrow> None
                           | Some (v, r') \<Rightarrow>
                               (case dropWhile is_space r' of
                                  [] \<Rightarrow> None
                                | d # ds \<Rightarrow>
                                    (if d = CHR ''}'' then Some ([(k, v)], ds)
                                     else if d = CHR '','' then
                                       map_option (\<lambda>(m, r''). ((k, v) # m, r''))
                                         (parse_members n ds)
                                     else None))))))))"

definition demo_json_parse :: "string \<Rightarrow> thrown + json" where
  "demo_json_parse t =
     (case parse_json (Suc (length t)) t of
        None \<Rightarrow>
          Inl (ErrorObj (if dropWhile is_space t = [] then ''Unexpected end of JSON input''
                         else ''Unexpected token in JSON''))
      | Some (v, r) \<Rightarrow>
          (if dropWhile is_space r = [] then Inr v
           else Inl (ErrorObj ''Unexpected non-whitespace character after JSON'')))"

text \<open>The cookie package: \<open>serialize\<close> checks the name, escapes the value as
  \<open>encodeURIComponent\<close> does, and appends the attributes that are set; \<open>parse\<close> splits a
  header at \<open>;\<close> and at the first \<open>=\<close> (the demo decodes no escapes).\<close>

definition name_char :: "char \<Rightarrow> bool" where
  "name_char c =
     (let n = (of_char c :: nat)
      in (48 \<le> n \<and> n \<le> 57) \<or> (65 \<le> n \<and> n \<le> 90) \<or> (97 \<le> n \<and> n \<le> 122)
         \<or> c \<in> set ''!#$%&*+-.^_|~'' \<or> n = 39 \<or> n = 96)"

definition unreserved :: "char \<Rightarrow> bool" where
  "unreserved c =
     (let n = (of_char c :: nat)
      in (48 \<le> n \<and> n \<le> 57) \<or> (65 \<le> n \<and> n \<le> 90) \<or> (97 \<le> n \<and> n \<le> 122)
         \<or> c \<in> set ''-_.!~*()'' \<or> n = 39)"

definition upper_hex :: "nat \<Rightarrow> char" where
  "upper_hex n = (if n < 10 then char_of (48 + n) else char_of (55 + n))"

definition encodeURIComponent :: "string \<Rightarrow> string" where
  "encodeURIComponent t =
     concat (map (\<lambda>c. if unreserved c then [c]
                       else [CHR ''%'', upper_hex (of_char c div 16), upper_hex (of_char c mod 16)]) t)"

definition attribute :: "'a field \<Rightarrow> ('a \<Rightarrow> string) \<Rightarrow> string" where
  "attribute f render = (case f of Def x \<Rightarrow> render x | _ \<Rightarrow> [])"

definition demo_attributes :: "cookie_options \<Rightarrow> string" where
  "demo_attributes opt =
     attribute (maxAge opt) (\<lambda>a. case a of Num i \<Rightarrow> ''; Max-Age='' @ show_int i | NaN \<Rightarrow> [])
     @ attribute (domain opt) (\<lambda>d. if d = [] then [] else ''; Domain='' @ d)
     @ attribute (path opt) (\<lambda>p. if p = [] then [] else ''; Path='' @ p)
     @ attribute (expires opt) (\<lambda>t. ''; Expires='' @ show_int t)
     @ attribute (httpOnly opt) (\<lambda>b. if b then ''; HttpOnly'' else [])
     @ attribute (secure opt) (\<lambda>b. if b then ''; Secure'' else [])
     @ attribute (partitioned opt) (\<lambda>b. if b then ''; Partitioned'' else [])
     @ attribute (priority opt)
         (\<lambda>p. case p of Low \<Rightarrow> ''; Priority=Low'' | Medium \<Rightarrow> ''; Priority=Medium''
               | High \<Rightarrow> ''; Priority=High'')
     @ attribute (sameSite opt)
         (\<lambda>x. case x of SameSiteTrue \<Rightarrow> ''; SameSite=Strict'' | SameSiteFalse \<Rightarrow> []
               | Lax \<Rightarrow> ''; SameSite=Lax'' | Strict \<Rightarrow> ''; SameSite=Strict''
               | NoneSite \<Rightarrow> ''; SameSite=None'')"

definition demo_cookie_serialize :: "string \<Rightarrow> string \<Rightarrow> cookie_options \<Rightarrow> thrown + string" where
  "demo_cookie_serialize name v opt =
     (if name = [] \<or> \<not> list_all name_char name then Inl (ErrorObj ''argument name is invalid'')
      else if maxAge opt = Def NaN then Inl (ErrorObj ''option maxAge is invalid'')
      else Inr (name @ ''='' @ encodeURIComponent v @ demo_attributes opt))"

definition name_and_value :: "string \<Rightarrow> (string \<times> string) option" where
  "name_and_value t =
     (let u = dropWhile is_space t
      in if CHR ''='' \<in> set u
         then Some (takeWhile (\<lambda>c. c \<noteq> CHR ''='') u, tl (dropWhile (\<lambda>c. c \<noteq> CHR ''='') u))
         else None)"

definition demo_cookie_parse :: "string \<Rightarrow> (string \<times> string) list" where
  "demo_cookie_parse header = List.map_filter name_and_value (split_on CHR '';'' header)"

text \<open>\<open>JSON.stringify\<close> on cookie options: the members that have a value.\<close>

definition options_json :: "cookie_options \<Rightarrow> json" where
  "options_json opt =
     JObj (List.map_filter (\<lambda>(k, f). case f of Def v \<Rightarrow> Some (k, v) | _ \<Rightarrow> None)
       [(''httpOnly'', map_field JBool (httpOnly opt)),
        (''secure'', map_field JBool (secure opt)),
        (''sameSite'', map_field
           (\<lambda>x. case x of SameSiteTrue \<Rightarrow> JBool True | SameSiteFalse \<Rightarrow> JBool False
                 | Lax \<Rightarrow> JStr ''lax'' | Strict \<Rightarrow> JStr ''strict'' | NoneSite \<Rightarrow> JStr ''none'')
           (sameSite opt)),
        (''path'', map_field JStr (path opt)),
        (''domain'', map_field JStr (domain opt)),
        (''expires'', map_field JNum (expires opt)),
        (''partitioned'', map_field JBool (partitioned opt)),
        (''priority'', map_field
           (\<lambda>p. case p of Low \<Rightarrow> JStr ''low'' | Medium \<Rightarrow> JStr ''medium'' | High \<Rightarrow> JStr ''high'')
           (priority opt)),
        (''maxAge'', map_field (\<lambda>a. case a of Num i \<Rightarrow> JNum i | NaN \<Rightarrow> JNull) (maxAge opt))])"

definition demo_lib :: pq_lib where
  "demo_lib =
     \<lparr>kem_keygen = demo_kem_keygen,
      kem_encapsulate = demo_kem_encapsulate,
      kem_decapsulate = demo_kem_decapsulate,
      dsa_keygen = demo_dsa_keygen,
      dsa_sign = demo_dsa_sign,
      dsa_verify = demo_dsa_verify,
      subtle_importKey = demo_importKey,
      subtle_encrypt = demo_encrypt,
      subtle_decrypt = demo_decrypt,
      b64_stringify = demo_b64_stringify,
      b64_parse = demo_b64_parse,
      text_encode = demo_text_encode,
      text_decode = demo_text_decode,
      json_stringify = demo_json_stringify,
      json_parse = demo_json_parse,
      cookie_serialize = demo_cookie_serialize,
      cookie_parse = demo_cookie_parse,
      options_stringify = (\<lambda>opt. demo_json_stringify (options_json opt))\<rparr>"

text \<open>The random bytes of the examples, and the options of a caller.\<close>

definition demo_random :: seal_random where
  "demo_random =
     \<lparr>kemSeed = map of_nat [1 ..< 65],
      encapsRandom = map of_nat [101 ..< 133],
      iv = map of_nat [7, 7, 7, 1, 2, 3, 4, 5, 6, 9, 9, 9],
      dsaSeed = map of_nat [33 ..< 97],
      signRandom = []\<rparr>"

definition demo_password :: string where
  "demo_password = replicate 32 CHR ''x''"

definition demo_seal_options :: seal_options where
  "demo_seal_options = \<lparr>seal_password = PasswordString demo_password, seal_ttl = Some 3600\<rparr>"

definition demo_value :: js_data where
  "demo_value = Json (JObj [(''userId'', JNum 42)])"

section \<open>What the theorems assume of the libraries\<close>

text \<open>
  ML-KEM decapsulation takes the KEM ciphertext and the decapsulation (secret) key and
  checks the length of the key before anything else: it throws an \<open>Error\<close> that says
  which length it expected. For ML-KEM-1024 a secret key has 3168 bytes and a public key
  1568. The message of that error is not one the \<open>catch\<close> clause of \<open>unsealData\<close>
  recognises.
\<close>

definition kem_checks_key_length :: "pq_lib \<Rightarrow> nat \<Rightarrow> bool" where
  "kem_checks_key_length L n =
     (\<forall>ct k. length k \<noteq> n \<longrightarrow>
        (\<exists>m. kem_decapsulate L ct k = Inl (ErrorObj m) \<and> \<not> seal_validity_message m))"

text \<open>The seal of \<open>demo_value\<close> under \<open>demo_random\<close>, written out.\<close>

definition demo_bytes :: seal_bytes where
  "demo_bytes =
     \<lparr>encryptedData = [144, 55, 138, 136, 122, 135, 94, 121, 55, 79, 73, 71, 146, 94],
      kemPublicKey = [2, 3, 4, 5],
      signatureBytes = [183, 33, 34, 35, 36],
      dsaPublicKey = [33, 34, 35, 36]\<rparr>"

definition demo_payload :: string where
  "demo_payload =
     ''7b2263697068657274657874223a2239303337386138383761383735653739333734663439343739323565222c227075626c69634b6579223a223032303330343035222c227369676e6174757265223a2262373231323232333234222c227369676e5075626c69634b6579223a223231323232333234227d''"

definition demo_token :: string where
  "demo_token = demo_payload @ ''~2''"

text \<open>The same seal with one byte of the KEM public key changed.\<close>

definition demo_tampered :: seal_bytes where
  "demo_tampered = demo_bytes\<lparr>kemPublicKey := (kemPublicKey demo_bytes)[2 := 255]\<rparr>"

text \<open>Two key sets that differ in the secret of their highest id.\<close>

definition keys_ab :: seal_options where
  "keys_ab =
     \<lparr>seal_password = PasswordsMap [(''1'', replicate 32 CHR ''a''), (''2'', replicate 32 CHR ''b'')],
      seal_ttl = Some 3600\<rparr>"

definition keys_ac :: seal_options where
  "keys_ac =
     \<lparr>seal_password = PasswordsMap [(''1'', replicate 32 CHR ''a''), (''2'', replicate 32 CHR ''c'')],
      seal_ttl = Some 3600\<rparr>"

definition keys_a :: seal_options where
  "keys_a =
     \<lparr>seal_password = PasswordsMap [(''1'', replicate 32 CHR ''a'')], seal_ttl = Some 3600\<rparr>"

section \<open>The sessions a caller can hold\<close>

text \<open>A session on a plain object is what \<open>getIronSession\<close> returned, after any number
  of field writes and deletes by the caller and of calls of the three operations.\<close>

inductive rr_reachable :: "pq_lib \<Rightarrow> rr_session \<Rightarrow> bool" for L :: pq_lib where
  rr_loaded: "getIronSession L req res so = Loaded st \<Longrightarrow> rr_reachable L st"
| rr_assigned: "rr_reachable L st \<Longrightarrow> set_field k v (rr_obj st) = Inr obj \<Longrightarrow>
     rr_reachable L (st\<lparr>rr_obj := obj\<rparr>)"
| rr_deleted: "rr_reachable L st \<Longrightarrow> delete_property k (rr_obj st) = Inr obj \<Longrightarrow>
     rr_reachable L (st\<lparr>rr_obj := obj\<rparr>)"
| rr_saved: "rr_reachable L st \<Longrightarrow> rr_reachable L (snd (rr_save L rnd st))"
| rr_destroyed: "rr_reachable L st \<Longrightarrow> rr_reachable L (snd (rr_destroy L st))"
| rr_reconfigured: "rr_reachable L st \<Longrightarrow> rr_reachable L (rr_updateConfig so st)"

inductive cs_reachable :: "pq_lib \<Rightarrow> cs_session \<Rightarrow> bool" for L :: pq_lib where
  cs_loaded: "getIronSessionFromCookieStore L store so = Loaded st \<Longrightarrow> cs_reachable L st"
| cs_assigned: "cs_reachable L st \<Longrightarrow> set_field k v (cs_obj st) = Inr obj \<Longrightarrow>
     cs_reachable L (st\<lparr>cs_obj := obj\<rparr>)"
| cs_deleted: "cs_reachable L st \<Longrightarrow> delete_property k (cs_obj st) = Inr obj \<Longrightarrow>
     cs_reachable L (st\<lparr>cs_obj := obj\<rparr>)"
| cs_saved: "cs_reachable L st \<Longrightarrow> cs_reachable L (snd (cs_save L rnd st))"
| cs_destroyed: "cs_reachable L st \<Longrightarrow> cs_reachable L (snd (cs_destroy st))"
| cs_reconfigured: "cs_reachable L st \<Longrightarrow> cs_reachable L (cs_updateConfig so st)"

section \<open>Invariants of the session object\<close>

definition operation_name :: "operation \<Rightarrow> string" where
  "operation_name m =
     (case m of UpdateConfig \<Rightarrow> ''updateConfig'' | Save \<Rightarrow> ''save'' | Destroy \<Rightarrow> ''destroy'')"

definition operation_names :: "string list" where
  "operation_names = [''updateConfig'', ''save'', ''destroy'']"

text \<open>An operation as \<open>Object.defineProperties\<close> creates it on an object that has no
  property of that name.\<close>

definition hidden_method :: "operation \<Rightarrow> property" where
  "hidden_method m =
     \<lparr>held = Method m, enumerable = False, writable = False, configurable = False\<rparr>"

definition plain_data :: "property \<Rightarrow> bool" where
  "plain_data p =
     (enumerable p \<and> writable p \<and> configurable p
      \<and> (case held p of Data v \<Rightarrow> True | Method m \<Rightarrow> False))"

text \<open>An object as \<open>JSON.parse\<close> builds it: distinct keys, plain data only.\<close>

definition all_plain :: "js_object \<Rightarrow> bool" where
  "all_plain obj = (distinct (map fst obj) \<and> list_all (\<lambda>(k, p). plain_data p) obj)"

text \<open>The keys of an object are distinct and each of its enumerable properties is
  configurable: \<open>destroy\<close> can delete every key that \<open>Object.keys\<close> lists.\<close>

definition deletable :: "js_object \<Rightarrow> bool" where
  "deletable obj =
     (distinct (map fst obj) \<and> list_all (\<lambda>(k, p). enumerable p \<longrightarrow> configurable p) obj)"

text \<open>The three operations are present under their names, hidden and fixed, and every
  other property is the caller's data.\<close>

definition operations_hidden :: "js_object \<Rightarrow> bool" where
  "operations_hidden obj =
     (distinct (map fst obj)
      \<and> list_all (\<lambda>m. map_of obj (operation_name m) = Some (hidden_method m))
           [UpdateConfig, Save, Destroy]
      \<and> list_all (\<lambda>(k, p). k \<in> set operation_names \<or> plain_data p) obj)"

text \<open>The member names of a JSON object.\<close>

definition member_names :: "json \<Rightarrow> string list" where
  "member_names j = (case j of JObj kvs \<Rightarrow> map fst kvs | _ \<Rightarrow> [])"

section \<open>Sessions of the examples\<close>

definition demo_options :: session_options where
  "demo_options =
     \<lparr>opt_cookieName = ''sid'', opt_password = PasswordString demo_password,
      opt_ttl = Def 3600, opt_cookieOptions = None\<rparr>"

text \<open>A session loaded without a cookie, after \<open>session.userId = 42\<close>.\<close>

definition demo_object :: js_object where
  "demo_object =
     [(''updateConfig'', hidden_method UpdateConfig), (''save'', hidden_method Save),
      (''destroy'', hidden_method Destroy), (''userId'', data_property (JNum 42))]"

definition demo_rr :: rr_session where
  "demo_rr =
     \<lparr>rr_obj = demo_object, rr_config = getSessionConfig demo_options,
      rr_passwords = [(''1'', demo_password)], rr_res = FetchResponse []\<rparr>"

definition demo_cs :: cs_session where
  "demo_cs =
     \<lparr>cs_obj = demo_object, cs_config = getSessionConfig demo_options,
      cs_passwords = [(''1'', demo_password)], cs_store = \<lparr>jar = [], written = []\<rparr>\<rparr>"

text \<open>The same session under a cookie name of 3790 characters, once for each
  transport.\<close>

definition long_name :: string where
  "long_name = replicate 3790 CHR ''s''"

definition long_rr :: rr_session where
  "long_rr = demo_rr\<lparr>rr_config := getSessionConfig (demo_options\<lparr>opt_cookieName := long_name\<rparr>)\<rparr>"

definition long_cs :: cs_session where
  "long_cs = demo_cs\<lparr>cs_config := getSessionConfig (demo_options\<lparr>opt_cookieName := long_name\<rparr>)\<rparr>"

definition demo_cookie :: string where
  "demo_cookie = ''sid='' @ demo_token @ ''; Max-Age=3540; Path=/; HttpOnly; Secure; SameSite=Lax''"

definition long_cookie :: string where
  "long_cookie =
     long_name @ ''='' @ demo_token @ ''; Max-Age=3540; Path=/; HttpOnly; Secure; SameSite=Lax''"

text \<open>The same session on a Node response whose headers are sent.\<close>

definition sent_rr :: rr_session where
  "sent_rr = demo_rr\<lparr>rr_res := ServerResponse True NoHeader\<rparr>"






definition empty_token :: string where
  "empty_token =
     ''7b2263697068657274657874223a22393039323065222c227075626c69634b6579223a223032303330343035222c227369676e6174757265223a2233303231323232333234222c227369676e5075626c69634b6579223a223231323232333234227d~2''"



definition nulls_token :: string where
  "nulls_token =
     ''7b2263697068657274657874223a22373038333861383138313431383338613831383137323730222c227075626c69634b6579223a223032303330343035222c227369676e6174757265223a2262313231323232333234222c227369676e5075626c69634b6579223a223231323232333234227d~2''"



text \<open>A session whose cookie unsealed to \<open>{"save": 1}\<close>.\<close>

definition colliding_object :: js_object where
  "colliding_object =
     [(''save'', \<lparr>held = Method Save, enumerable = True, writable = True, configurable = True\<rparr>),
      (''updateConfig'', hidden_method UpdateConfig),
      (''destroy'', hidden_method Destroy)]"

definition colliding_rr :: rr_session where
  "colliding_rr = demo_rr\<lparr>rr_obj := colliding_object\<rparr>"

section \<open>Results\<close>

subsection \<open>Facts about parsing and about the demo instance\<close>

lemma element_split_on_0:
  "element (split_on d s) 0 = Some (takeWhile (\<lambda>c. c \<noteq> d) s)"
proof (induction s)
  case Nil
  show ?case by (simp add: element_def)
next
  case (Cons c cs)
  show ?case
  proof (cases "c = d")
    case True
    then show ?thesis by (simp add: element_def)
  next
    case False
    from Cons obtain ps where "split_on d cs = takeWhile (\<lambda>c. c \<noteq> d) cs # ps"
      by (cases "split_on d cs") (auto simp: element_def)
    with False show ?thesis by (simp add: element_def)
  qed
qed

text \<open>\<open>parseSeal\<close> never throws: \<open>split\<close> always returns a first part.\<close>

lemma parseSeal_payload:
  "\<exists>v. parseSeal s = Inr (takeWhile (\<lambda>c. c \<noteq> versionDelimiter) s, v)"
  by (simp add: parseSeal_def Let_def element_split_on_0)

lemma unsealData_payload:
  "unsealData L s opts =
     (case unseal_try L (takeWhile (\<lambda>c. c \<noteq> versionDelimiter) s) of
        Inl e \<Rightarrow> (if recognised e then Inr (Json (JObj [])) else Inl e)
      | Inr v \<Rightarrow> Inr v)"
  using parseSeal_payload [of s]
  by (auto simp: unsealData_def and_then_def)

lemma payload_of_token:
  "versionDelimiter \<notin> set p \<Longrightarrow>
     takeWhile (\<lambda>c. c \<noteq> versionDelimiter) (p @ versionDelimiter # v) = p"
  by (induction p) auto

lemma payload_alone:
  "versionDelimiter \<notin> set p \<Longrightarrow> takeWhile (\<lambda>c. c \<noteq> versionDelimiter) p = p"
  by (induction p) auto

lemma token_payload:
  assumes "versionDelimiter \<notin> set (encodePayload L seal)"
  shows "takeWhile (\<lambda>c. c \<noteq> versionDelimiter) (encodeSeal L seal) = encodePayload L seal"
  using assms by (simp add: encodeSeal_def payload_of_token)

lemma openSeal_cases:
  assumes "kem_checks_key_length L n" and "length (kemPublicKey sb) \<noteq> n"
  shows "(dsa_verify L (encryptedData sb) (signatureBytes sb) (dsaPublicKey sb) = Inr True \<longrightarrow>
            (\<exists>m. openSeal L sb = Inl (ErrorObj m) \<and> \<not> seal_validity_message m))
       \<and> (dsa_verify L (encryptedData sb) (signatureBytes sb) (dsaPublicKey sb) = Inr False \<longrightarrow>
            openSeal L sb = Inl (ErrorObj ''Invalid signature''))
       \<and> (\<forall>e. dsa_verify L (encryptedData sb) (signatureBytes sb) (dsaPublicKey sb) = Inl e \<longrightarrow>
            openSeal L sb = Inl e)"
proof -
  from assms obtain m where
    "kem_decapsulate L (encryptedData sb) (kemPublicKey sb) = Inl (ErrorObj m)"
    "\<not> seal_validity_message m"
    unfolding kem_checks_key_length_def by blast
  then show ?thesis by (auto simp: openSeal_def and_then_def)
qed

lemma demo_kem_checks: "kem_checks_key_length demo_lib 6"
  by (simp add: kem_checks_key_length_def demo_lib_def demo_kem_decapsulate_def
      demo_length_error_def seal_validity_message_def)

lemma demo_sealBytes: "sealBytes demo_lib demo_random demo_value = Inr demo_bytes"
  by code_simp

lemma demo_encodePayload: "encodePayload demo_lib (toSeal demo_lib demo_bytes) = demo_payload"
  by code_simp

lemma demo_encodeSeal: "encodeSeal demo_lib (toSeal demo_lib demo_bytes) = demo_token"
  by code_simp

lemma demo_decodeSeal: "decodeSeal demo_lib demo_payload = Inr demo_bytes"
  by code_simp

lemma demo_alphabet: "versionDelimiter \<notin> set demo_payload"
  by code_simp

lemma demo_verify:
  "dsa_verify demo_lib (encryptedData demo_bytes) (signatureBytes demo_bytes)
     (dsaPublicKey demo_bytes) = Inr True"
  by code_simp

lemma demo_pk_length: "length (kemPublicKey demo_bytes) \<noteq> 6"
  by code_simp

lemma demo_tampered_codec:
  "decodeSeal demo_lib (encodePayload demo_lib (toSeal demo_lib demo_tampered)) = Inr demo_tampered"
  by code_simp

lemma demo_tampered_alphabet:
  "versionDelimiter \<notin> set (encodePayload demo_lib (toSeal demo_lib demo_tampered))"
  by code_simp

lemma demo_openSeal:
  "openSeal demo_lib demo_bytes = Inl (ErrorObj ''Uint8Array expected of length 6, got length=4'')"
  by code_simp

lemma demo_not_recognised:
  "\<not> recognised (ErrorObj ''Uint8Array expected of length 6, got length=4'')"
  by code_simp

lemma demo_parse_v1: "parseSeal (demo_payload @ ''~1'') = Inr (demo_payload, Some (Num 1))"
  by code_simp

lemma keys_differ:
  "map_of (normalizeStringPasswordToMap (seal_password keys_ab)) ''2''
     \<noteq> map_of (normalizeStringPasswordToMap (seal_password keys_ac)) ''2''"
  by code_simp

lemma demo_empty_payload:
  "decodeSeal demo_lib (takeWhile (\<lambda>c. c \<noteq> versionDelimiter) ''~2'')
     = Inl (ErrorObj ''Unexpected end of JSON input'')"
  by code_simp

lemma demo_empty_payload_error: "\<not> recognised (ErrorObj ''Unexpected end of JSON input'')"
  by code_simp

lemma demo_bad_character:
  "decodeSeal demo_lib (takeWhile (\<lambda>c. c \<noteq> versionDelimiter) ''zz'')
     = Inl (ErrorObj ''Invalid character z'')"
  by code_simp

lemma demo_bad_character_error: "\<not> recognised (ErrorObj ''Invalid character z'')"
  by code_simp

lemma demo_no_components:
  "decodeSeal demo_lib (takeWhile (\<lambda>c. c \<noteq> versionDelimiter) ''7b7d~2'')
     = Inl (ErrorObj ''Cannot read properties of undefined (reading length)'')"
  by code_simp

lemma demo_no_components_error:
  "\<not> recognised (ErrorObj ''Cannot read properties of undefined (reading length)'')"
  by code_simp

lemma demo_sealData:
  "sealData demo_lib demo_random demo_value opts = Inr demo_token"
  by (simp add: sealData_def and_then_def demo_sealBytes demo_encodeSeal)

subsection \<open>Facts about session objects\<close>

lemma fst_set_held: "map fst (set_held k v obj) = map fst obj"
  by (induction obj) (auto simp: set_held_def)

lemma map_of_set_held:
  "map_of (set_held k v obj) k' =
     (if k' = k then map_option (\<lambda>p. p\<lparr>held := v\<rparr>) (map_of obj k) else map_of obj k')"
  by (induction obj) (auto simp: set_held_def)

lemma set_held_Cons:
  "set_held k v ((a, b) # obj) = (if a = k then (a, b\<lparr>held := v\<rparr>) else (a, b)) # set_held k v obj"
  by (simp add: set_held_def)

lemma set_held_Nil: "set_held k v [] = []"
  by (simp add: set_held_def)

lemma set_held_deletable:
  "list_all (\<lambda>(k, p). enumerable p \<longrightarrow> configurable p) obj \<Longrightarrow>
     list_all (\<lambda>(k, p). enumerable p \<longrightarrow> configurable p) (set_held k' v obj)"
proof (induction obj)
  case Nil
  show ?case by (simp add: set_held_Nil)
next
  case (Cons x xs)
  then show ?case by (cases x) (simp add: set_held_Cons)
qed

lemma map_of_delete:
  "map_of (filter (\<lambda>(k', p). k' \<noteq> k) obj) x = (if x = k then None else map_of obj x)"
  by (induction obj) auto

lemma map_of_append_found:
  "map_of obj x = Some p \<Longrightarrow> map_of (obj @ rest) x = Some p"
  by (simp add: map_add_Some_iff)

lemma key_absent: "map_of obj k = None \<Longrightarrow> k \<notin> set (map fst obj)"
  by (simp add: map_of_eq_None_iff)

text \<open>The loop of \<open>destroy\<close> deletes exactly the enumerable properties.\<close>

lemma delete_keys_filter:
  assumes "distinct (map fst obj)"
    and "list_all (\<lambda>(k, p). enumerable p \<longrightarrow> configurable p) obj"
    and "\<forall>k\<in>set ks. \<forall>p. map_of obj k = Some p \<longrightarrow> enumerable p"
  shows "delete_keys ks obj = (None, filter (\<lambda>(k, p). k \<notin> set ks) obj)"
  using assms
proof (induction ks arbitrary: obj)
  case Nil
  then show ?case by simp
next
  case (Cons k ks)
  show ?case
  proof (cases "map_of obj k")
    case None
    then have absent: "k \<notin> set (map fst obj)" by (rule key_absent)
    have same: "filter (\<lambda>(k', p). k' \<notin> set (k # ks)) obj = filter (\<lambda>(k', p). k' \<notin> set ks) obj"
      using absent by (intro filter_cong) (auto simp: image_iff)
    have "delete_keys ks obj = (None, filter (\<lambda>(k, p). k \<notin> set ks) obj)"
      using Cons.prems by (intro Cons.IH) auto
    with None same show ?thesis by (simp add: delete_property_def)
  next
    case (Some p)
    then have mem: "(k, p) \<in> set obj" by (rule map_of_SomeD)
    from Cons.prems(3) Some have "enumerable p" by simp
    with Cons.prems(2) mem have conf: "configurable p"
      by (auto simp: list_all_iff)
    let ?obj = "filter (\<lambda>(k', p'). k' \<noteq> k) obj"
    have d: "distinct (map fst ?obj)"
      using Cons.prems(1) by (simp add: distinct_map_filter)
    have a: "list_all (\<lambda>(k, p). enumerable p \<longrightarrow> configurable p) ?obj"
      using Cons.prems(2) by (auto simp: list_all_iff)
    have e: "\<forall>k'\<in>set ks. \<forall>p. map_of ?obj k' = Some p \<longrightarrow> enumerable p"
      using Cons.prems(3) by (auto simp: map_of_delete split: if_splits)
    have "delete_keys ks ?obj = (None, filter (\<lambda>(k, p). k \<notin> set ks) ?obj)"
      using d a e by (rule Cons.IH)
    moreover have "filter (\<lambda>(k, p). k \<notin> set ks) ?obj = filter (\<lambda>(k', p). k' \<notin> set (k # ks)) obj"
      by (auto intro: filter_cong)
    ultimately show ?thesis
      using Some conf by (simp add: delete_property_def)
  qed
qed

lemma destroy_loop:
  assumes "deletable obj"
  shows "delete_keys (object_keys obj) obj = (None, filter (\<lambda>(k, p). \<not> enumerable p) obj)"
proof -
  from assms have d: "distinct (map fst obj)"
    and a: "list_all (\<lambda>(k, p). enumerable p \<longrightarrow> configurable p) obj"
    by (simp_all add: deletable_def)
  have unique: "\<And>k p q. (k, p) \<in> set obj \<Longrightarrow> (k, q) \<in> set obj \<Longrightarrow> p = q"
    using d by (meson eq_key_imp_eq_value)
  have e: "\<forall>k\<in>set (object_keys obj). \<forall>p. map_of obj k = Some p \<longrightarrow> enumerable p"
  proof (intro ballI allI impI)
    fix k p
    assume "k \<in> set (object_keys obj)" and "map_of obj k = Some p"
    then obtain q where "(k, q) \<in> set obj" "enumerable q" and "(k, p) \<in> set obj"
      by (auto simp: object_keys_def dest: map_of_SomeD)
    with unique show "enumerable p" by blast
  qed
  have "filter (\<lambda>(k, p). k \<notin> set (object_keys obj)) obj = filter (\<lambda>(k, p). \<not> enumerable p) obj"
  proof (rule filter_cong [OF refl])
    fix x
    assume x: "x \<in> set obj"
    obtain k p where kp: "x = (k, p)" by (cases x)
    have "k \<in> set (object_keys obj) \<longleftrightarrow> enumerable p"
    proof
      assume "k \<in> set (object_keys obj)"
      then obtain q where "(k, q) \<in> set obj" "enumerable q"
        by (auto simp: object_keys_def)
      with unique x kp show "enumerable p" by blast
    next
      assume "enumerable p"
      with x kp show "k \<in> set (object_keys obj)"
        by (force simp: object_keys_def)
    qed
    with kp show "(case x of (k, p) \<Rightarrow> k \<notin> set (object_keys obj)) = (case x of (k, p) \<Rightarrow> \<not> enumerable p)"
      by simp
  qed
  with delete_keys_filter [OF d a e] show ?thesis by simp
qed



text \<open>Objects from JSON.\<close>


lemma set_held_plain:
  "list_all (\<lambda>(k, p). plain_data p) obj \<Longrightarrow>
     list_all (\<lambda>(k, p). plain_data p) (set_held k (Data v) obj)"
proof (induction obj)
  case Nil
  show ?case by (simp add: set_held_Nil)
next
  case (Cons x xs)
  then show ?case by (cases x) (simp add: set_held_Cons plain_data_def)
qed

lemma put_member_plain:
  assumes "all_plain obj"
  shows "all_plain (put_member obj m)"
proof (cases "map_of obj (fst m)")
  case None
  with assms show ?thesis
    by (auto simp: all_plain_def put_member_def key_absent data_property_def plain_data_def)
next
  case (Some p)
  with assms show ?thesis
    by (simp add: all_plain_def put_member_def fst_set_held set_held_plain)
qed

lemma foldl_put_member_plain: "all_plain obj \<Longrightarrow> all_plain (foldl put_member obj kvs)"
  by (induction kvs arbitrary: obj) (auto simp: put_member_plain)

lemma parsed_object_plain: "all_plain (parsed_object kvs)"
  by (rule foldl_put_member_plain [of "[]", folded parsed_object_def]) (simp add: all_plain_def)

lemma put_member_keys: "set (map fst (put_member obj m)) = insert (fst m) (set (map fst obj))"
proof (cases "map_of obj (fst m)")
  case None
  then show ?thesis by (simp add: put_member_def)
next
  case (Some p)
  then have "fst m \<in> set (map fst obj)"
    by (metis key_absent map_of_eq_None_iff option.distinct(1) set_map)
  with Some show ?thesis
    by (auto simp: put_member_def fst_set_held)
qed

lemma foldl_put_member_keys:
  "set (map fst (foldl put_member obj kvs)) = set (map fst obj) \<union> set (map fst kvs)"
  by (induction kvs arbitrary: obj) (auto simp: put_member_keys simp del: set_map)

lemma parsed_object_keys: "set (map fst (parsed_object kvs)) = set (map fst kvs)"
  using foldl_put_member_keys [of "[]" kvs] by (simp add: parsed_object_def)

text \<open>Attaching the operations.\<close>

lemma plain_deletable: "all_plain obj \<Longrightarrow> deletable obj"
  by (auto simp: all_plain_def deletable_def plain_data_def list_all_iff)

lemma define_value_deletable:
  assumes "deletable obj" and "define_value k v obj = Inr obj'"
  shows "deletable obj'"
proof (cases "map_of obj k")
  case None
  with assms show ?thesis
    by (auto simp: define_value_def deletable_def key_absent)
next
  case (Some p)
  with assms have obj': "obj' = set_held k v obj"
    by (auto simp: define_value_def split: if_splits)
  have "list_all (\<lambda>(k, p). enumerable p \<longrightarrow> configurable p) (set_held k v obj)"
    using assms(1) by (simp add: deletable_def set_held_deletable)
  with assms(1) obj' show ?thesis
    by (simp add: deletable_def fst_set_held)
qed

lemma defineProperties_deletable:
  assumes "deletable obj" and "defineProperties obj = Inr obj'"
  shows "deletable obj'"
proof -
  from assms(2) obtain o1 o2 where
    1: "define_value ''updateConfig'' (Method UpdateConfig) obj = Inr o1" and
    2: "define_value ''save'' (Method Save) o1 = Inr o2" and
    3: "define_value ''destroy'' (Method Destroy) o2 = Inr obj'"
    by (auto simp: defineProperties_def and_then_def split: sum.splits)
  from assms(1) 1 have "deletable o1" by (rule define_value_deletable)
  then have "deletable o2" using 2 by (rule define_value_deletable)
  then show ?thesis using 3 by (rule define_value_deletable)
qed

lemma attach_deletable:
  assumes "attach v = Loaded obj"
  shows "deletable obj"
proof -
  from assms obtain kvs where "defineProperties (parsed_object kvs) = Inr obj"
    by (auto simp: attach_def split: js_data.splits json.splits sum.splits)
  with plain_deletable [OF parsed_object_plain] show ?thesis
    by (rule defineProperties_deletable)
qed

text \<open>The caller's writes.\<close>

lemma set_field_deletable:
  assumes "deletable obj" and "set_field k v obj = Inr obj'"
  shows "deletable obj'"
proof (cases "map_of obj k")
  case None
  with assms show ?thesis
    by (auto simp: set_field_def deletable_def key_absent data_property_def)
next
  case (Some p)
  with assms have "obj' = set_held k (Data v) obj"
    by (auto simp: set_field_def split: if_splits)
  with assms(1) show ?thesis
    by (simp add: deletable_def fst_set_held set_held_deletable)
qed

lemma delete_property_deletable:
  assumes "deletable obj" and "delete_property k obj = Inr obj'"
  shows "deletable obj'"
  using assms
  by (auto simp: delete_property_def deletable_def distinct_map_filter list_all_iff
      split: option.splits if_splits)

text \<open>Hidden operations.\<close>

lemma names_of_operations:
  "k \<in> set operation_names \<longleftrightarrow> (\<exists>m. k = operation_name m)"
proof
  assume "k \<in> set operation_names"
  then consider "k = operation_name UpdateConfig" | "k = operation_name Save"
    | "k = operation_name Destroy"
    by (auto simp: operation_names_def operation_name_def)
  then show "\<exists>m. k = operation_name m" by cases blast+
next
  assume "\<exists>m. k = operation_name m"
  then obtain m where "k = operation_name m" ..
  then show "k \<in> set operation_names"
    by (cases m) (simp_all add: operation_names_def operation_name_def)
qed

lemma hidden_lookup:
  assumes "operations_hidden obj"
  shows "map_of obj (operation_name m) = Some (hidden_method m)"
  using assms by (cases m) (simp_all add: operations_hidden_def)

lemma hidden_entry:
  assumes "operations_hidden obj" and "(k, p) \<in> set obj" and "k \<in> set operation_names"
  shows "\<exists>m. k = operation_name m \<and> p = hidden_method m"
proof -
  from assms(3) obtain m where m: "k = operation_name m"
    by (auto simp: names_of_operations)
  from assms(1) have "distinct (map fst obj)" by (simp add: operations_hidden_def)
  then have "map_of obj k = Some p" using assms(2) by (rule map_of_is_SomeI)
  with hidden_lookup [OF assms(1), of m] m show ?thesis by auto
qed

lemma other_entry:
  assumes "operations_hidden obj" and "(k, p) \<in> set obj" and "k \<notin> set operation_names"
  shows "plain_data p"
  using assms by (auto simp: operations_hidden_def list_all_iff)

lemma hidden_deletable:
  assumes "operations_hidden obj"
  shows "deletable obj"
proof -
  have "enumerable p \<longrightarrow> configurable p" if "(k, p) \<in> set obj" for k p
  proof (cases "k \<in> set operation_names")
    case True
    with hidden_entry [OF assms that] show ?thesis by (auto simp: hidden_method_def)
  next
    case False
    with other_entry [OF assms that] show ?thesis by (simp add: plain_data_def)
  qed
  with assms show ?thesis
    by (auto simp: deletable_def operations_hidden_def list_all_iff)
qed

lemma operations_hiddenI:
  assumes "distinct (map fst obj)"
    and "\<And>m. map_of obj (operation_name m) = Some (hidden_method m)"
    and "\<And>k p. (k, p) \<in> set obj \<Longrightarrow> k \<notin> set operation_names \<Longrightarrow> plain_data p"
  shows "operations_hidden obj"
  using assms by (auto simp: operations_hidden_def list_all_iff)

lemma set_held_others:
  "list_all (\<lambda>(k, p). k \<in> S \<or> plain_data p) obj \<Longrightarrow>
     list_all (\<lambda>(k, p). k \<in> S \<or> plain_data p) (set_held k' (Data v) obj)"
proof (induction obj)
  case Nil
  show ?case by (simp add: set_held_Nil)
next
  case (Cons x xs)
  then show ?case by (cases x) (auto simp: set_held_Cons plain_data_def)
qed

lemma set_field_hidden:
  assumes "operations_hidden obj" and "set_field k v obj = Inr obj'"
  shows "operations_hidden obj'"
proof (cases "map_of obj k")
  case None
  with assms(2) have obj': "obj' = obj @ [(k, data_property v)]"
    by (simp add: set_field_def)
  show ?thesis
  proof (rule operations_hiddenI)
    show "distinct (map fst obj')"
      using assms(1) None obj' by (simp add: operations_hidden_def map_of_eq_None_iff)
    show "map_of obj' (operation_name m) = Some (hidden_method m)" for m
      using hidden_lookup [OF assms(1), of m] obj' by (simp add: map_of_append_found)
    show "plain_data p" if "(k', p) \<in> set obj'" "k' \<notin> set operation_names" for k' p
      using that obj' other_entry [OF assms(1)]
      by (auto simp: data_property_def plain_data_def)
  qed
next
  case (Some p)
  with assms(2) have w: "writable p" and obj': "obj' = set_held k (Data v) obj"
    by (auto simp: set_field_def split: if_splits)
  have k: "operation_name m \<noteq> k" for m
    using hidden_lookup [OF assms(1), of m] Some w by (auto simp: hidden_method_def)
  show ?thesis
    unfolding operations_hidden_def
  proof (intro conjI)
    show "distinct (map fst obj')"
      using assms(1) obj' by (simp add: operations_hidden_def fst_set_held)
    show "list_all (\<lambda>m. map_of obj' (operation_name m) = Some (hidden_method m))
            [UpdateConfig, Save, Destroy]"
      using hidden_lookup [OF assms(1)] k obj' by (simp add: map_of_set_held)
    show "list_all (\<lambda>(k, p). k \<in> set operation_names \<or> plain_data p) obj'"
      using assms(1) obj' by (simp add: operations_hidden_def set_held_others)
  qed
qed

lemma delete_property_hidden:
  assumes "operations_hidden obj" and "delete_property k obj = Inr obj'"
  shows "operations_hidden obj'"
proof (cases "map_of obj k")
  case None
  with assms show ?thesis by (simp add: delete_property_def)
next
  case (Some p)
  with assms(2) have c: "configurable p" and obj': "obj' = filter (\<lambda>(k', p'). k' \<noteq> k) obj"
    by (auto simp: delete_property_def split: if_splits)
  have k: "k \<noteq> operation_name m" for m
    using hidden_lookup [OF assms(1), of m] Some c by (auto simp: hidden_method_def)
  show ?thesis
  proof (rule operations_hiddenI)
    show "distinct (map fst obj')"
      using assms(1) obj' by (simp add: operations_hidden_def distinct_map_filter)
    show "map_of obj' (operation_name m) = Some (hidden_method m)" for m
      using hidden_lookup [OF assms(1), of m] k [of m] obj' by (simp add: map_of_delete)
    show "plain_data q" if "(k', q) \<in> set obj'" "k' \<notin> set operation_names" for k' q
      using that obj' other_entry [OF assms(1)] by auto
  qed
qed

lemma destroyed_hidden:
  assumes "operations_hidden obj"
  shows "operations_hidden (filter (\<lambda>(k, p). \<not> enumerable p) obj)"
proof (rule operations_hiddenI)
  let ?obj = "filter (\<lambda>(k, p). \<not> enumerable p) obj"
  show d: "distinct (map fst ?obj)"
    using assms by (simp add: operations_hidden_def distinct_map_filter)
  show "map_of ?obj (operation_name m) = Some (hidden_method m)" for m
  proof -
    from hidden_lookup [OF assms, of m] have "(operation_name m, hidden_method m) \<in> set obj"
      by (rule map_of_SomeD)
    then have "(operation_name m, hidden_method m) \<in> set ?obj"
      by (simp add: hidden_method_def)
    with d show ?thesis by (simp add: map_of_is_SomeI)
  qed
  show "plain_data p" if "(k, p) \<in> set ?obj" "k \<notin> set operation_names" for k p
    using that other_entry [OF assms] by auto
qed

lemma payload_names:
  assumes "operations_hidden obj"
  shows "set (member_names (enumerable_data obj)) \<inter> set operation_names = {}"
proof -
  have "k \<notin> set operation_names"
    if "k \<in> set (member_names (enumerable_data obj))" for k
  proof
    assume names: "k \<in> set operation_names"
    from that obtain p where "(k, p) \<in> set obj" "enumerable p"
      by (auto simp: member_names_def enumerable_data_def List.map_filter_def
          split: if_splits prop_value.splits)
    moreover from hidden_entry [OF assms \<open>(k, p) \<in> set obj\<close> names]
    obtain m where "p = hidden_method m" by blast
    ultimately show False by (simp add: hidden_method_def)
  qed
  then show ?thesis by blast
qed

lemma define_new:
  "map_of obj k = None \<Longrightarrow> define_value k (Method m) obj = Inr (obj @ [(k, hidden_method m)])"
  by (simp add: define_value_def hidden_method_def)

lemma attach_without_collision:
  assumes "set (map fst kvs) \<inter> set operation_names = {}"
  shows "attach (Json (JObj kvs)) =
           Loaded (parsed_object kvs @
             [(''updateConfig'', hidden_method UpdateConfig), (''save'', hidden_method Save),
              (''destroy'', hidden_method Destroy)])"
    and "operations_hidden (parsed_object kvs @
             [(''updateConfig'', hidden_method UpdateConfig), (''save'', hidden_method Save),
              (''destroy'', hidden_method Destroy)])"
proof -
  let ?P = "parsed_object kvs"
  let ?P1 = "?P @ [(''updateConfig'', hidden_method UpdateConfig)]"
  let ?P2 = "?P1 @ [(''save'', hidden_method Save)]"
  let ?P3 = "?P2 @ [(''destroy'', hidden_method Destroy)]"
  from parsed_object_keys [of kvs] assms
  have absent: "''updateConfig'' \<notin> set (map fst ?P)" "''save'' \<notin> set (map fst ?P)"
    "''destroy'' \<notin> set (map fst ?P)"
    by (auto simp: operation_names_def simp del: set_map)
  then have none: "map_of ?P ''updateConfig'' = None" "map_of ?P ''save'' = None"
    "map_of ?P ''destroy'' = None"
    by (simp_all add: map_of_eq_None_iff)
  have 1: "define_value ''updateConfig'' (Method UpdateConfig) ?P = Inr ?P1"
    using none(1) by (rule define_new)
  have s1: "map_of ?P1 ''save'' = None"
    using none by (simp add: map_add_def)
  have 2: "define_value ''save'' (Method Save) ?P1 = Inr ?P2"
    using s1 by (rule define_new)
  have d2: "map_of ?P2 ''destroy'' = None"
    using none by (simp add: map_add_def)
  have 3: "define_value ''destroy'' (Method Destroy) ?P2 = Inr ?P3"
    using d2 by (rule define_new)
  have "defineProperties ?P = Inr ?P3"
    by (simp only: defineProperties_def and_then_def 1 2 3 sum.case)
  then show "attach (Json (JObj kvs)) =
           Loaded (?P @
             [(''updateConfig'', hidden_method UpdateConfig), (''save'', hidden_method Save),
              (''destroy'', hidden_method Destroy)])"
    by (simp add: attach_def)
  from parsed_object_plain [of kvs] have d: "distinct (map fst ?P)"
    and pl: "list_all (\<lambda>(k, p). plain_data p) ?P"
    by (simp_all add: all_plain_def)
  have l1: "map_of ?P3 ''updateConfig'' = Some (hidden_method UpdateConfig)"
    using none by (simp add: map_add_def)
  have l2: "map_of ?P3 ''save'' = Some (hidden_method Save)"
    using none by (simp add: map_add_def)
  have l3: "map_of ?P3 ''destroy'' = Some (hidden_method Destroy)"
    using none by (simp add: map_add_def)
  have dist: "distinct (map fst ?P3)"
    using d absent by simp
  have others: "list_all (\<lambda>(k, p). k \<in> set operation_names \<or> plain_data p) ?P3"
    using pl by (auto simp: list_all_iff operation_names_def)
  show "operations_hidden (?P @
             [(''updateConfig'', hidden_method UpdateConfig), (''save'', hidden_method Save),
              (''destroy'', hidden_method Destroy)])"
    using dist l1 l2 l3 others
    by (simp add: operations_hidden_def operation_name_def)
qed

subsection \<open>Round trip\<close>

text \<open>
  C1. The claim is that unsealing a fresh seal returns the value that was sealed. The
  code does not do that. \<open>sealData\<close> keeps neither the KEM ciphertext nor the secret key
  nor the initialisation vector, and \<open>unsealData\<close> hands the ciphertext of the data and
  the public key of the token to \<open>decapsulate\<close>. With a library that checks the length
  of the decapsulation key (\<open>n\<close> bytes, a public key having another length) and codecs
  that invert each other on the token, the theorem says: sealing succeeds with the token
  of \<open>sb\<close>; the only value \<open>unsealData\<close> can return for that token is the empty object;
  and when the signature verifies, \<open>unsealData\<close> throws the error of \<open>decapsulate\<close>,
  which the \<open>catch\<close> clause does not recognise.
\<close>

theorem fresh_seal_is_not_opened:
  assumes sealed: "sealBytes L rnd data = Inr sb"
    and codec: "decodeSeal L (encodePayload L (toSeal L sb)) = Inr sb"
    and alphabet: "versionDelimiter \<notin> set (encodePayload L (toSeal L sb))"
    and kem: "kem_checks_key_length L n"
    and pk: "length (kemPublicKey sb) \<noteq> n"
  shows "sealData L rnd data opts = Inr (encodeSeal L (toSeal L sb))
       \<and> (\<forall>v. unsealData L (encodeSeal L (toSeal L sb)) opts' = Inr v \<longrightarrow> v = Json (JObj []))
       \<and> (dsa_verify L (encryptedData sb) (signatureBytes sb) (dsaPublicKey sb) = Inr True \<longrightarrow>
            (\<exists>m. unsealData L (encodeSeal L (toSeal L sb)) opts' = Inl (ErrorObj m)
                  \<and> \<not> seal_validity_message m))"
proof -
  have s: "sealData L rnd data opts = Inr (encodeSeal L (toSeal L sb))"
    using sealed by (simp add: sealData_def and_then_def)
  have t: "unseal_try L (takeWhile (\<lambda>c. c \<noteq> versionDelimiter) (encodeSeal L (toSeal L sb)))
             = openSeal L sb"
    using codec by (simp add: token_payload [OF alphabet] unseal_try_def and_then_def)
  note oc = openSeal_cases [OF kem pk]
  have a: "\<forall>v. unsealData L (encodeSeal L (toSeal L sb)) opts' = Inr v \<longrightarrow> v = Json (JObj [])"
  proof (cases "dsa_verify L (encryptedData sb) (signatureBytes sb) (dsaPublicKey sb)")
    case (Inl e)
    with oc have "openSeal L sb = Inl e" by blast
    then show ?thesis by (simp add: unsealData_payload t)
  next
    case (Inr ok)
    show ?thesis
    proof (cases ok)
      case True
      with Inr oc obtain m where "openSeal L sb = Inl (ErrorObj m)" "\<not> seal_validity_message m"
        by auto
      then show ?thesis by (simp add: unsealData_payload t recognised_def)
    next
      case False
      with Inr oc have "openSeal L sb = Inl (ErrorObj ''Invalid signature'')" by auto
      then show ?thesis by (simp add: unsealData_payload t)
    qed
  qed
  have b: "dsa_verify L (encryptedData sb) (signatureBytes sb) (dsaPublicKey sb) = Inr True \<longrightarrow>
            (\<exists>m. unsealData L (encodeSeal L (toSeal L sb)) opts' = Inl (ErrorObj m)
                  \<and> \<not> seal_validity_message m)"
  proof
    assume "dsa_verify L (encryptedData sb) (signatureBytes sb) (dsaPublicKey sb) = Inr True"
    with oc obtain m where "openSeal L sb = Inl (ErrorObj m)" "\<not> seal_validity_message m"
      by blast
    then show "\<exists>m. unsealData L (encodeSeal L (toSeal L sb)) opts' = Inl (ErrorObj m)
                  \<and> \<not> seal_validity_message m"
      by (simp add: unsealData_payload t recognised_def)
  qed
  from s a b show ?thesis by blast
qed

text \<open>On the demo instance: \<open>{"userId": 42}\<close> is sealed into \<open>demo_token\<close>, and
  unsealing \<open>demo_token\<close> throws.\<close>

theorem fresh_seal_is_not_opened_witness:
  "sealBytes demo_lib demo_random demo_value = Inr demo_bytes
   \<and> kem_checks_key_length demo_lib 6
   \<and> sealData demo_lib demo_random demo_value demo_seal_options = Inr demo_token
   \<and> (\<exists>m. unsealData demo_lib demo_token demo_seal_options = Inl (ErrorObj m)
           \<and> \<not> seal_validity_message m)"
  using fresh_seal_is_not_opened [of demo_lib demo_random demo_value demo_bytes 6
      demo_seal_options demo_seal_options]
    demo_sealBytes demo_decodeSeal demo_alphabet demo_kem_checks demo_pk_length demo_verify
  by (simp add: demo_encodePayload demo_encodeSeal)


subsection \<open>Tampering\<close>

text \<open>
  C2. The claim is that a token with one byte changed in the ciphertext, the signature or
  either public key unseals to the empty value and never throws. The signature covers the
  ciphertext only, so a change in the KEM public key passes verification, and the changed
  key then goes to \<open>decapsulate\<close> as the original did. The theorem: for a seal \<open>sb\<close>
  whose signature verifies, and any one byte of its KEM public key changed, \<open>unsealData\<close>
  on the changed token throws an error that the \<open>catch\<close> clause does not recognise
  (under the same assumptions on the library as before).
\<close>

theorem tampered_public_key_throws:
  assumes sealed: "sealBytes L rnd data = Inr sb"
    and verifies: "dsa_verify L (encryptedData sb) (signatureBytes sb) (dsaPublicKey sb) = Inr True"
    and index: "i < length (kemPublicKey sb)"
    and changed: "b \<noteq> kemPublicKey sb ! i"
    and tampered: "sb' = sb\<lparr>kemPublicKey := (kemPublicKey sb)[i := b]\<rparr>"
    and codec: "decodeSeal L (encodePayload L (toSeal L sb')) = Inr sb'"
    and alphabet: "versionDelimiter \<notin> set (encodePayload L (toSeal L sb'))"
    and kem: "kem_checks_key_length L n"
    and pk: "length (kemPublicKey sb) \<noteq> n"
  shows "\<exists>m. unsealData L (encodeSeal L (toSeal L sb')) opts = Inl (ErrorObj m)
             \<and> \<not> seal_validity_message m"
proof -
  have t: "unseal_try L (takeWhile (\<lambda>c. c \<noteq> versionDelimiter) (encodeSeal L (toSeal L sb')))
             = openSeal L sb'"
    using codec by (simp add: token_payload [OF alphabet] unseal_try_def and_then_def)
  have len: "length (kemPublicKey sb') \<noteq> n"
    using pk tampered by simp
  have v: "dsa_verify L (encryptedData sb') (signatureBytes sb') (dsaPublicKey sb') = Inr True"
    using verifies tampered by simp
  from openSeal_cases [OF kem len] v obtain m where
    "openSeal L sb' = Inl (ErrorObj m)" "\<not> seal_validity_message m"
    by blast
  then show ?thesis
    by (simp add: unsealData_payload t recognised_def)
qed

theorem tampered_public_key_throws_witness:
  "sealBytes demo_lib demo_random demo_value = Inr demo_bytes
   \<and> 2 < length (kemPublicKey demo_bytes)
   \<and> 255 \<noteq> kemPublicKey demo_bytes ! 2
   \<and> kem_checks_key_length demo_lib 6
   \<and> (\<exists>m. unsealData demo_lib (encodeSeal demo_lib (toSeal demo_lib demo_tampered))
             demo_seal_options = Inl (ErrorObj m)
           \<and> \<not> seal_validity_message m)"
proof -
  have i: "2 < length (kemPublicKey demo_bytes)" by code_simp
  have c: "255 \<noteq> kemPublicKey demo_bytes ! 2" by code_simp
  from tampered_public_key_throws [OF demo_sealBytes demo_verify i c demo_tampered_def
      demo_tampered_codec demo_tampered_alphabet demo_kem_checks demo_pk_length,
      of demo_seal_options]
  show ?thesis using demo_sealBytes i c demo_kem_checks by simp
qed

subsection \<open>The version of a token\<close>

text \<open>
  C3, as the claim states it, fails: \<open>unsealData\<close> reads the version of a token and
  never looks at it. The seal of the demo value with its version changed from 2 to 1 is
  not turned into the empty value; it throws, exactly as the token with version 2 does.
\<close>

theorem unrecognised_version_counterexample:
  "sealData demo_lib demo_random demo_value demo_seal_options = Inr (demo_payload @ ''~2'')
   \<and> parseSeal (demo_payload @ ''~1'') = Inr (demo_payload, Some (Num 1))
   \<and> Num 1 \<noteq> Num currentMajorVersion
   \<and> unsealData demo_lib (demo_payload @ ''~1'') demo_seal_options
       = Inl (ErrorObj ''Uint8Array expected of length 6, got length=4'')
   \<and> unsealData demo_lib (demo_payload @ ''~1'') demo_seal_options \<noteq> Inr (Json (JObj []))"
proof -
  have p: "takeWhile (\<lambda>c. c \<noteq> versionDelimiter) (demo_payload @ ''~1'') = demo_payload"
    using payload_of_token [OF demo_alphabet, of "''1''"] by (simp add: versionDelimiter_def)
  have u: "unsealData demo_lib (demo_payload @ ''~1'') demo_seal_options
       = Inl (ErrorObj ''Uint8Array expected of length 6, got length=4'')"
    by (simp add: unsealData_payload p unseal_try_def and_then_def demo_decodeSeal
        demo_openSeal demo_not_recognised)
  show ?thesis
    using u demo_parse_v1 demo_sealData [of demo_seal_options]
    by (simp add: demo_token_def currentMajorVersion_def)
qed

text \<open>
  C3, amended. The major version of a token has no effect on \<open>unsealData\<close>: for every
  payload \<open>p\<close> (a string without the delimiter) and every suffix \<open>v\<close>, recognised or
  not, the token \<open>p~v\<close> gives the result that \<open>p\<close> with the current version gives, and
  the result that \<open>p\<close> alone gives: the same value, or the same thrown error.
\<close>

theorem unseal_ignores_version:
  assumes "versionDelimiter \<notin> set p"
  shows "unsealData L (p @ versionDelimiter # v) opts
           = unsealData L (p @ versionDelimiter # decimal (nat currentMajorVersion)) opts
         \<and> unsealData L (p @ versionDelimiter # v) opts = unsealData L p opts"
  using assms by (simp add: unsealData_payload payload_of_token payload_alone)

theorem unseal_ignores_version_witness:
  "versionDelimiter \<notin> set demo_payload
   \<and> unsealData demo_lib (demo_payload @ versionDelimiter # ''1'') demo_seal_options
       = unsealData demo_lib (demo_payload @ versionDelimiter # decimal (nat currentMajorVersion))
           demo_seal_options
   \<and> unsealData demo_lib (demo_payload @ versionDelimiter # ''1'') demo_seal_options
       = unsealData demo_lib demo_payload demo_seal_options"
  using unseal_ignores_version [OF demo_alphabet, of demo_lib "''1''" demo_seal_options]
    demo_alphabet
  by blast

subsection \<open>Password rotation\<close>

text \<open>
  The documentation of \<open>SessionOptions.password\<close> says that all passwords of a set are
  used to decrypt and that only the most recent one, that of the highest key, is used to
  encrypt. The code does not do so: two key sets that differ in exactly the secret of
  their highest key seal the same value, under the same random bytes, into the same
  token.
\<close>

lemma highest_key_ignored:
  "sealData demo_lib demo_random demo_value keys_ab = Inr demo_token
   \<and> sealData demo_lib demo_random demo_value keys_ac = Inr demo_token
   \<and> map_of (normalizeStringPasswordToMap (seal_password keys_ab)) ''2''
       \<noteq> map_of (normalizeStringPasswordToMap (seal_password keys_ac)) ''2''"
  using keys_differ by (simp add: demo_sealData)

text \<open>
  C4. The claim is that a new seal uses the secret of the highest key id and that a
  token sealed under an earlier key set is still accepted under a later one. The code
  falls short of it: \<open>sealData\<close> and \<open>unsealData\<close> take the password set as
  \<open>_options\<close> and never read it. The token depends on the value and the random bytes
  alone, whatever the passwords, and a token unseals to the same result under every
  password set, also under one that shares no secret with the set it was sealed under.
\<close>

theorem password_is_not_used:
  "sealData L rnd data opts = sealData L rnd data opts'
   \<and> unsealData L tok opts = unsealData L tok opts'"
  by (simp add: sealData_def unsealData_def)

theorem password_is_not_used_witness:
  "sealData demo_lib demo_random demo_value keys_a = sealData demo_lib demo_random demo_value keys_ab
   \<and> unsealData demo_lib demo_token keys_a = unsealData demo_lib demo_token keys_ab"
  using password_is_not_used [of demo_lib demo_random demo_value keys_a keys_ab demo_token]
  by simp

subsection \<open>Malformed tokens\<close>

text \<open>
  C5. The claim is that a malformed token unseals to the empty value and never throws.
  In the code the \<open>catch\<close> clause recognises five message prefixes, and the only one
  the \<open>try\<close> block can raise itself is \<open>Invalid signature\<close>; what the decoders throw
  on a malformed token is passed on. The theorem: whenever decoding the part of the
  token before the delimiter throws an error outside the recognised class, \<open>unsealData\<close>
  throws that error.
\<close>

theorem undecodable_token_throws:
  assumes "decodeSeal L (takeWhile (\<lambda>c. c \<noteq> versionDelimiter) tok) = Inl e"
    and "\<not> recognised e"
  shows "unsealData L tok opts = Inl e"
  using assms by (simp add: unsealData_payload unseal_try_def and_then_def)

text \<open>On the demo instance: an empty payload, a payload that is not in the alphabet
  and has no delimiter, and a payload that decodes to \<open>{}\<close> (no components).\<close>

theorem undecodable_token_throws_witness:
  "unsealData demo_lib ''~2'' demo_seal_options = Inl (ErrorObj ''Unexpected end of JSON input'')
   \<and> unsealData demo_lib ''zz'' demo_seal_options = Inl (ErrorObj ''Invalid character z'')
   \<and> unsealData demo_lib ''7b7d~2'' demo_seal_options
       = Inl (ErrorObj ''Cannot read properties of undefined (reading length)'')"
  using undecodable_token_throws [OF demo_empty_payload demo_empty_payload_error,
      of demo_seal_options]
    undecodable_token_throws [OF demo_bad_character demo_bad_character_error,
      of demo_seal_options]
    undecodable_token_throws [OF demo_no_components demo_no_components_error,
      of demo_seal_options]
  by simp

subsection \<open>Facts about the operations\<close>

lemma setCookie_cookies:
  assumes "setCookie res v = Inr res'"
  shows "set_cookies res' = set_cookies res @ [v] \<and> headers_sent res' = headers_sent res"
  using assms
  by (cases res) (auto simp: set_cookies_def setCookie_def header_list_def headers_sent_def
      split: if_splits)

lemma setCookie_not_sent:
  assumes "\<not> headers_sent res"
  shows "\<exists>res'. setCookie res v = Inr res'"
  using assms by (cases res) (simp_all add: setCookie_def headers_sent_def)



lemma rr_destroy_deletable:
  assumes "deletable (rr_obj a)"
  shows "rr_destroy L a =
     (case cookie_serialize L (cookieName (rr_config a)) []
             ((cookieOptions (rr_config a))\<lparr>maxAge := Def (Num 0)\<rparr>) of
        Inl e \<Rightarrow> (Some e, a\<lparr>rr_obj := filter (\<lambda>(k, p). \<not> enumerable p) (rr_obj a)\<rparr>)
      | Inr cookieValue \<Rightarrow>
          (case setCookie (rr_res a) cookieValue of
             Inl e \<Rightarrow> (Some e, a\<lparr>rr_obj := filter (\<lambda>(k, p). \<not> enumerable p) (rr_obj a)\<rparr>)
           | Inr res \<Rightarrow>
               (None, a\<lparr>rr_obj := filter (\<lambda>(k, p). \<not> enumerable p) (rr_obj a),
                        rr_res := res\<rparr>)))"
  by (simp add: rr_destroy_def destroy_loop [OF assms])

lemma cs_destroy_deletable:
  assumes "deletable (cs_obj b)"
  shows "cs_destroy b =
     (None, b\<lparr>cs_obj := filter (\<lambda>(k, p). \<not> enumerable p) (cs_obj b),
              cs_store := store_set (cs_store b) (cookieName (cs_config b)) []
                            ((cookieOptions (cs_config b))\<lparr>maxAge := Def (Num 0)\<rparr>)\<rparr>)"
  by (simp add: cs_destroy_def destroy_loop [OF assms])

lemma loaded_rr_deletable:
  assumes "getIronSession L req res so = Loaded st"
  shows "deletable (rr_obj st)"
proof -
  from assms obtain v obj where "attach v = Loaded obj" "rr_obj st = obj"
    by (auto simp: getIronSession_def Let_def split: option.splits sum.splits loaded.splits)
  then show ?thesis by (simp add: attach_deletable)
qed

lemma loaded_cs_deletable:
  assumes "getIronSessionFromCookieStore L store so = Loaded st"
  shows "deletable (cs_obj st)"
proof -
  from assms obtain v obj where "attach v = Loaded obj" "cs_obj st = obj"
    by (auto simp: getIronSessionFromCookieStore_def Let_def
        split: option.splits sum.splits loaded.splits)
  then show ?thesis by (simp add: attach_deletable)
qed

lemma rr_save_object: "rr_obj (snd (rr_save L rnd a)) = rr_obj a"
  by (simp add: rr_save_def split: sum.splits)

lemma cs_save_object: "cs_obj (snd (cs_save L rnd b)) = cs_obj b"
  by (simp add: cs_save_def Let_def split: sum.splits)

lemma rr_destroy_object:
  assumes "deletable (rr_obj a)"
  shows "rr_obj (snd (rr_destroy L a)) = filter (\<lambda>(k, p). \<not> enumerable p) (rr_obj a)"
  by (simp add: rr_destroy_deletable [OF assms] split: sum.splits)

lemma cs_destroy_object:
  assumes "deletable (cs_obj b)"
  shows "cs_obj (snd (cs_destroy b)) = filter (\<lambda>(k, p). \<not> enumerable p) (cs_obj b)"
  by (simp add: cs_destroy_deletable [OF assms])

lemma filter_deletable: "deletable obj \<Longrightarrow> deletable (filter P obj)"
  by (auto simp: deletable_def distinct_map_filter list_all_iff)

text \<open>Every session a caller can hold can be destroyed.\<close>

lemma rr_reachable_deletable: "rr_reachable L st \<Longrightarrow> deletable (rr_obj st)"
proof (induction rule: rr_reachable.induct)
  case (rr_loaded req res so st)
  then show ?case by (rule loaded_rr_deletable)
next
  case (rr_assigned st k v obj)
  then show ?case by (simp add: set_field_deletable)
next
  case (rr_deleted st k obj)
  then show ?case by (simp add: delete_property_deletable)
next
  case (rr_saved st rnd)
  then show ?case by (simp add: rr_save_object)
next
  case (rr_destroyed st)
  then show ?case by (simp add: rr_destroy_object filter_deletable)
next
  case (rr_reconfigured st so)
  then show ?case by (simp add: rr_updateConfig_def)
qed

lemma cs_reachable_deletable: "cs_reachable L st \<Longrightarrow> deletable (cs_obj st)"
proof (induction rule: cs_reachable.induct)
  case (cs_loaded store so st)
  then show ?case by (rule loaded_cs_deletable)
next
  case (cs_assigned st k v obj)
  then show ?case by (simp add: set_field_deletable)
next
  case (cs_deleted st k obj)
  then show ?case by (simp add: delete_property_deletable)
next
  case (cs_saved st rnd)
  then show ?case by (simp add: cs_save_object)
next
  case (cs_destroyed st)
  then show ?case by (simp add: cs_destroy_object filter_deletable)
next
  case (cs_reconfigured st so)
  then show ?case by (simp add: cs_updateConfig_def)
qed

subsection \<open>Facts about the example sessions\<close>


lemma demo_field_set:
  "set_field ''userId'' (JNum 42) [(''updateConfig'', hidden_method UpdateConfig),
       (''save'', hidden_method Save), (''destroy'', hidden_method Destroy)] = Inr demo_object"
  by code_simp



lemma demo_destroy_cookie:
  "cookie_serialize demo_lib (cookieName (rr_config demo_rr)) []
     ((cookieOptions (rr_config demo_rr))\<lparr>maxAge := Def (Num 0)\<rparr>)
   = Inr ''sid=; Max-Age=0; Path=/; HttpOnly; Secure; SameSite=Lax''"
  by code_simp

lemma demo_object_hidden: "operations_hidden demo_object"
  by code_simp

lemma demo_no_names: "set (map fst ([] :: (string \<times> json) list)) \<inter> set operation_names = {}"
  by simp

lemma demo_another_field:
  "set_field ''n'' (JNum 1) demo_object = Inr (demo_object @ [(''n'', data_property (JNum 1))])"
  by code_simp

lemma demo_delete: "delete_property ''userId'' demo_object =
    Inr [(''updateConfig'', hidden_method UpdateConfig),
       (''save'', hidden_method Save), (''destroy'', hidden_method Destroy)]"
  by code_simp

lemma demo_rr_input: "fst (rr_seal_input demo_rr) = demo_value"
  by code_simp

lemma demo_cs_input: "fst (cs_seal_input demo_cs) = demo_value"
  by code_simp

lemma demo_rr_cookie:
  "cookie_serialize demo_lib (cookieName (rr_config demo_rr)) demo_token
     (cookieOptions (rr_config demo_rr))
   = Inr demo_cookie"
  by code_simp

lemma demo_rr_cookie_length:
  "length demo_cookie = 300"
  by code_simp

lemma demo_rr_not_sent: "\<not> headers_sent (rr_res demo_rr)"
  by code_simp

lemma demo_cs_length:
  "length (cookieName (cs_config demo_cs)) + length demo_token
     + length (options_stringify demo_lib (cookieOptions (cs_config demo_cs))) = 318"
  by code_simp

lemma sent_rr_sent: "headers_sent (rr_res sent_rr)"
  by code_simp

lemma sent_rr_input: "fst (rr_seal_input sent_rr) = demo_value"
  by code_simp

lemma sent_rr_cookie:
  "cookie_serialize demo_lib (cookieName (rr_config sent_rr)) demo_token
     (cookieOptions (rr_config sent_rr))
   = Inr demo_cookie"
  by code_simp

lemma sent_rr_save: "rr_save demo_lib demo_random sent_rr = (Some headers_already_sent, sent_rr)"
  by (simp add: rr_save_def sent_rr_sent)

lemma sent_rr_cookies: "set_cookies (rr_res sent_rr) = []"
  by code_simp

lemma long_same:
  "rr_obj long_rr = cs_obj long_cs \<and> rr_config long_rr = cs_config long_cs
   \<and> rr_passwords long_rr = cs_passwords long_cs"
  by (simp add: long_rr_def long_cs_def demo_rr_def demo_cs_def)


lemma long_cs_input: "fst (cs_seal_input long_cs) = demo_value"
  by (simp add: long_cs_def cs_seal_input_def demo_cs_input [unfolded cs_seal_input_def, simplified])


lemma long_options:
  "cookieOptions (getSessionConfig (demo_options\<lparr>opt_cookieName := long_name\<rparr>))
     = cookieOptions (getSessionConfig demo_options)"
  by (simp add: getSessionConfig_def demo_options_def Let_def)

lemma long_cookieName:
  "cookieName (getSessionConfig (demo_options\<lparr>opt_cookieName := long_name\<rparr>)) = long_name"
  by (simp add: getSessionConfig_def demo_options_def Let_def)

lemma demo_attributes_value:
  "demo_attributes (cookieOptions (getSessionConfig demo_options))
     = ''; Max-Age=3540; Path=/; HttpOnly; Secure; SameSite=Lax''"
  by code_simp

lemma demo_maxAge: "maxAge (cookieOptions (getSessionConfig demo_options)) \<noteq> Def NaN"
  by code_simp

lemma demo_token_escaped: "encodeURIComponent demo_token = demo_token"
  by code_simp

lemma demo_token_length: "length demo_token = 242"
  by code_simp

lemma demo_options_length:
  "length (options_stringify demo_lib (cookieOptions (getSessionConfig demo_options))) = 73"
  by code_simp

lemma name_char_s: "name_char CHR ''s''"
  by code_simp

lemma long_name_length: "length long_name = 3790"
  by (simp add: long_name_def)

lemma long_name_valid: "long_name \<noteq> [] \<and> list_all name_char long_name"
  by (simp add: long_name_def list_all_iff name_char_s)

lemma long_rr_cookie:
  "cookie_serialize demo_lib (cookieName (rr_config long_rr)) demo_token
     (cookieOptions (rr_config long_rr)) = Inr long_cookie"
  using long_name_valid demo_maxAge
  by (simp add: long_rr_def long_options long_cookieName demo_lib_def demo_cookie_serialize_def
      demo_attributes_value demo_token_escaped long_cookie_def)

lemma long_cookie_length: "length long_cookie = 4087"
  by (simp add: long_cookie_def long_name_def demo_token_length)

lemma long_cs_length:
  "length (cookieName (cs_config long_cs)) + length demo_token
     + length (options_stringify demo_lib (cookieOptions (cs_config long_cs))) = 4105"
  by (simp add: long_cs_def long_options long_cookieName demo_token_length demo_options_length
      long_name_length)




lemma empty_token_length: "length empty_token = 198"
  by code_simp





lemma nulls_token_length: "length nulls_token = 234"
  by code_simp








lemma tokens_differ: "nulls_token \<noteq> empty_token"
  using nulls_token_length empty_token_length by auto


subsection \<open>Destroy\<close>













subsection \<open>The three operations\<close>

text \<open>
  C10, as the claim states it, fails when the unsealed value already has a member with
  the name of an operation. \<open>Object.defineProperties\<close> with a descriptor that gives a
  value only keeps the attributes of an existing property: the function \<open>save\<close>
  replaces the value and stays enumerable, \<open>Object.keys\<close> lists it, and \<open>destroy\<close>
  deletes it.
\<close>

theorem colliding_field_counterexample:
  "set (map fst [(''save'', JNum 1)]) \<inter> set operation_names \<noteq> {}
   \<and> attach (Json (JObj [(''save'', JNum 1)])) = Loaded colliding_object
   \<and> map_of colliding_object ''save''
       = Some \<lparr>held = Method Save, enumerable = True, writable = True, configurable = True\<rparr>
   \<and> object_keys colliding_object = [''save'']
   \<and> fst (rr_destroy demo_lib colliding_rr) = None
   \<and> map_of (rr_obj (snd (rr_destroy demo_lib colliding_rr))) ''save'' = None"
  by code_simp

text \<open>
  C10, amended. When the value loaded from the cookie has no member named \<open>save\<close>,
  \<open>destroy\<close> or \<open>updateConfig\<close> (an empty session has none), the three operations are
  own properties that are not enumerable, not writable and not configurable, and every
  operation keeps them so: the caller's writes and deletes that succeed, \<open>save\<close> and
  \<open>updateConfig\<close> (which leave the object alone) and \<open>destroy\<close> on either
  transport. The sealed payload has no member with one of the three names.
\<close>

theorem operations_stay_hidden:
  "(set (map fst kvs) \<inter> set operation_names = {} \<longrightarrow>
      (\<exists>obj. attach (Json (JObj kvs)) = Loaded obj \<and> operations_hidden obj))
   \<and> (operations_hidden obj \<longrightarrow>
        (\<forall>m. map_of obj (operation_name m) = Some (hidden_method m))
      \<and> (\<forall>k v obj'. set_field k v obj = Inr obj' \<longrightarrow> operations_hidden obj')
      \<and> (\<forall>k obj'. delete_property k obj = Inr obj' \<longrightarrow> operations_hidden obj')
      \<and> set (member_names (enumerable_data obj)) \<inter> set operation_names = {})
   \<and> rr_obj (snd (rr_save L rnd a)) = rr_obj a
   \<and> cs_obj (snd (cs_save L rnd b)) = cs_obj b
   \<and> rr_obj (rr_updateConfig so a) = rr_obj a
   \<and> cs_obj (cs_updateConfig so b) = cs_obj b
   \<and> (operations_hidden (rr_obj a) \<longrightarrow> operations_hidden (rr_obj (snd (rr_destroy L a))))
   \<and> (operations_hidden (cs_obj b) \<longrightarrow> operations_hidden (cs_obj (snd (cs_destroy b))))"
proof (intro conjI impI allI)
  assume "set (map fst kvs) \<inter> set operation_names = {}"
  from attach_without_collision [OF this]
  show "\<exists>obj. attach (Json (JObj kvs)) = Loaded obj \<and> operations_hidden obj"
    by blast
next
  fix m assume "operations_hidden obj"
  then show "map_of obj (operation_name m) = Some (hidden_method m)"
    by (rule hidden_lookup)
next
  fix k v obj' assume "operations_hidden obj" "set_field k v obj = Inr obj'"
  then show "operations_hidden obj'" by (rule set_field_hidden)
next
  fix k obj' assume "operations_hidden obj" "delete_property k obj = Inr obj'"
  then show "operations_hidden obj'" by (rule delete_property_hidden)
next
  assume "operations_hidden obj"
  then show "set (member_names (enumerable_data obj)) \<inter> set operation_names = {}"
    by (rule payload_names)
next
  show "rr_obj (snd (rr_save L rnd a)) = rr_obj a" by (rule rr_save_object)
  show "cs_obj (snd (cs_save L rnd b)) = cs_obj b" by (rule cs_save_object)
  show "rr_obj (rr_updateConfig so a) = rr_obj a" by (simp add: rr_updateConfig_def)
  show "cs_obj (cs_updateConfig so b) = cs_obj b" by (simp add: cs_updateConfig_def)
next
  assume h: "operations_hidden (rr_obj a)"
  then show "operations_hidden (rr_obj (snd (rr_destroy L a)))"
    by (simp add: rr_destroy_object [OF hidden_deletable [OF h]] destroyed_hidden)
next
  assume h: "operations_hidden (cs_obj b)"
  then show "operations_hidden (cs_obj (snd (cs_destroy b)))"
    by (simp add: cs_destroy_object [OF hidden_deletable [OF h]] destroyed_hidden)
qed

theorem operations_stay_hidden_witness:
  "set (map fst ([] :: (string \<times> json) list)) \<inter> set operation_names = {}
   \<and> (\<exists>obj. attach (Json (JObj [])) = Loaded obj \<and> operations_hidden obj)
   \<and> operations_hidden demo_object
   \<and> map_of demo_object (operation_name Save) = Some (hidden_method Save)
   \<and> set_field ''userId'' (JNum 42) [(''updateConfig'', hidden_method UpdateConfig),
       (''save'', hidden_method Save), (''destroy'', hidden_method Destroy)] = Inr demo_object
   \<and> operations_hidden [(''updateConfig'', hidden_method UpdateConfig),
       (''save'', hidden_method Save), (''destroy'', hidden_method Destroy)]
   \<and> operations_hidden (demo_object @ [(''n'', data_property (JNum 1))])
   \<and> set (member_names (enumerable_data demo_object)) \<inter> set operation_names = {}
   \<and> operations_hidden (rr_obj (snd (rr_destroy demo_lib demo_rr)))
   \<and> operations_hidden (cs_obj (snd (cs_destroy demo_cs)))"
proof -
  have a: "operations_hidden (rr_obj demo_rr)" by (simp add: demo_rr_def demo_object_hidden)
  have b: "operations_hidden (cs_obj demo_cs)" by (simp add: demo_cs_def demo_object_hidden)
  from operations_stay_hidden [of "[]" demo_object demo_lib demo_random demo_rr demo_cs
      demo_options]
    demo_no_names demo_object_hidden demo_field_set demo_delete demo_another_field a b
  show ?thesis by blast
qed

subsection \<open>The size guard\<close>

text \<open>
  C7, as the claim states it, fails in its second half. A session whose cookie string
  has 300 characters emits no cookie when the headers of the response are already sent:
  \<open>save()\<close> throws before it seals. And a cookie-store session whose cookie string
  would have 4087 characters is refused, because the store measures 4105.
\<close>

theorem within_limit_counterexample:
  "sealData demo_lib demo_random (fst (rr_seal_input sent_rr)) (snd (rr_seal_input sent_rr))
       = Inr demo_token
   \<and> cookie_serialize demo_lib (cookieName (rr_config sent_rr)) demo_token
       (cookieOptions (rr_config sent_rr)) = Inr demo_cookie
   \<and> length demo_cookie \<le> 4096
   \<and> fst (rr_save demo_lib demo_random sent_rr) = Some headers_already_sent
   \<and> set_cookies (rr_res (snd (rr_save demo_lib demo_random sent_rr))) = []
   \<and> sealData demo_lib demo_random (fst (cs_seal_input long_cs)) (snd (cs_seal_input long_cs))
       = Inr demo_token
   \<and> cookie_serialize demo_lib (cookieName (cs_config long_cs)) demo_token
       (cookieOptions (cs_config long_cs)) = Inr long_cookie
   \<and> length long_cookie \<le> 4096
   \<and> fst (cs_save demo_lib demo_random long_cs) = Some (cookie_too_big 4105)
   \<and> written (cs_store (snd (cs_save demo_lib demo_random long_cs))) = []"
proof -
  have c: "cs_save demo_lib demo_random long_cs = (Some (cookie_too_big 4105), long_cs)"
    by (simp add: cs_save_def Let_def long_cs_input demo_sealData long_cs_length)
  have w: "written (cs_store long_cs) = []"
    by (simp add: long_cs_def demo_cs_def)
  have k: "cookie_serialize demo_lib (cookieName (cs_config long_cs)) demo_token
       (cookieOptions (cs_config long_cs)) = Inr long_cookie"
    using long_rr_cookie long_same by simp
  show ?thesis
    using c w k
    by (simp add: sent_rr_input long_cs_input demo_sealData sent_rr_cookie demo_rr_cookie_length
        sent_rr_save sent_rr_cookies long_cookie_length)
qed

text \<open>
  C7, amended. On a response whose headers are not sent: when the serialised cookie
  string is longer than 4096 characters, \<open>save()\<close> fails with the usage error that
  names the length and the response is unchanged; otherwise it adds exactly this one
  cookie. On a response whose headers are sent it fails and changes nothing, whatever
  the length. On a cookie store the guard is on the length of the name plus the length of
  the seal plus the length of the JSON text of the cookie options: above 4096 \<open>save()\<close>
  fails and sets nothing, otherwise it sets exactly one cookie.
\<close>

theorem size_guard:
  "(\<not> headers_sent (rr_res a)
      \<and> sealData L rnd (fst (rr_seal_input a)) (snd (rr_seal_input a)) = Inr seal
      \<and> cookie_serialize L (cookieName (rr_config a)) seal (cookieOptions (rr_config a))
          = Inr cookieValue \<longrightarrow>
      (if length cookieValue > 4096
       then rr_save L rnd a = (Some (cookie_too_big (length cookieValue)), a)
       else (\<exists>res. setCookie (rr_res a) cookieValue = Inr res
                   \<and> rr_save L rnd a = (None, a\<lparr>rr_res := res\<rparr>))
            \<and> set_cookies (rr_res (snd (rr_save L rnd a)))
                = set_cookies (rr_res a) @ [cookieValue]))
   \<and> (headers_sent (rr_res a) \<longrightarrow> rr_save L rnd a = (Some headers_already_sent, a))
   \<and> (sealData L rnd (fst (cs_seal_input b)) (snd (cs_seal_input b)) = Inr seal' \<longrightarrow>
      (if length (cookieName (cs_config b)) + length seal'
            + length (options_stringify L (cookieOptions (cs_config b))) > 4096
       then cs_save L rnd b =
              (Some (cookie_too_big (length (cookieName (cs_config b)) + length seal'
                 + length (options_stringify L (cookieOptions (cs_config b))))), b)
       else fst (cs_save L rnd b) = None
            \<and> written (cs_store (snd (cs_save L rnd b)))
                = written (cs_store b)
                  @ [(cookieName (cs_config b), seal', cookieOptions (cs_config b))]))"
proof (intro conjI impI)
  assume h: "\<not> headers_sent (rr_res a)
      \<and> sealData L rnd (fst (rr_seal_input a)) (snd (rr_seal_input a)) = Inr seal
      \<and> cookie_serialize L (cookieName (rr_config a)) seal (cookieOptions (rr_config a))
          = Inr cookieValue"
  from h obtain res where res: "setCookie (rr_res a) cookieValue = Inr res"
    using setCookie_not_sent by blast
  from h res setCookie_cookies [OF res]
  show "if length cookieValue > 4096
       then rr_save L rnd a = (Some (cookie_too_big (length cookieValue)), a)
       else (\<exists>res. setCookie (rr_res a) cookieValue = Inr res
                   \<and> rr_save L rnd a = (None, a\<lparr>rr_res := res\<rparr>))
            \<and> set_cookies (rr_res (snd (rr_save L rnd a)))
                = set_cookies (rr_res a) @ [cookieValue]"
    by (simp add: rr_save_def)
next
  assume "headers_sent (rr_res a)"
  then show "rr_save L rnd a = (Some headers_already_sent, a)"
    by (simp add: rr_save_def)
next
  assume "sealData L rnd (fst (cs_seal_input b)) (snd (cs_seal_input b)) = Inr seal'"
  then show "if length (cookieName (cs_config b)) + length seal'
            + length (options_stringify L (cookieOptions (cs_config b))) > 4096
       then cs_save L rnd b =
              (Some (cookie_too_big (length (cookieName (cs_config b)) + length seal'
                 + length (options_stringify L (cookieOptions (cs_config b))))), b)
       else fst (cs_save L rnd b) = None
            \<and> written (cs_store (snd (cs_save L rnd b)))
                = written (cs_store b)
                  @ [(cookieName (cs_config b), seal', cookieOptions (cs_config b))]"
    by (simp add: cs_save_def Let_def store_set_def)
qed

theorem size_guard_witness:
  "\<not> headers_sent (rr_res demo_rr)
   \<and> headers_sent (rr_res sent_rr)
   \<and> sealData demo_lib demo_random (fst (rr_seal_input demo_rr)) (snd (rr_seal_input demo_rr))
       = Inr demo_token
   \<and> sealData demo_lib demo_random (fst (cs_seal_input demo_cs)) (snd (cs_seal_input demo_cs))
       = Inr demo_token
   \<and> fst (rr_save demo_lib demo_random demo_rr) = None
   \<and> set_cookies (rr_res (snd (rr_save demo_lib demo_random demo_rr)))
       = set_cookies (rr_res demo_rr)
         @ [demo_cookie]
   \<and> rr_save demo_lib demo_random sent_rr = (Some headers_already_sent, sent_rr)
   \<and> fst (cs_save demo_lib demo_random demo_cs) = None
   \<and> written (cs_store (snd (cs_save demo_lib demo_random demo_cs)))
       = written (cs_store demo_cs)
         @ [(cookieName (cs_config demo_cs), demo_token, cookieOptions (cs_config demo_cs))]
   \<and> cs_save demo_lib demo_random long_cs = (Some (cookie_too_big 4105), long_cs)"
proof -
  have s3: "sealData demo_lib demo_random (fst (cs_seal_input long_cs))
      (snd (cs_seal_input long_cs)) = Inr demo_token"
    by (simp add: long_cs_input demo_sealData)
  have big: "cs_save demo_lib demo_random long_cs = (Some (cookie_too_big 4105), long_cs)"
    using size_guard [of demo_rr demo_lib demo_random demo_token demo_cookie long_cs demo_token]
      s3 long_cs_length
    by simp
  have s1: "sealData demo_lib demo_random (fst (rr_seal_input demo_rr))
      (snd (rr_seal_input demo_rr)) = Inr demo_token"
    by (simp add: demo_rr_input demo_sealData)
  have s2: "sealData demo_lib demo_random (fst (cs_seal_input demo_cs))
      (snd (cs_seal_input demo_cs)) = Inr demo_token"
    by (simp add: demo_cs_input demo_sealData)
  from size_guard [of demo_rr demo_lib demo_random demo_token
      demo_cookie demo_cs demo_token]
    size_guard [of sent_rr demo_lib demo_random demo_token demo_cookie demo_cs demo_token]
    s1 s2 demo_rr_cookie demo_rr_cookie_length demo_rr_not_sent demo_cs_length sent_rr_sent
    big
  show ?thesis by auto
qed

subsection \<open>The two transports\<close>




subsection \<open>The mapping from ttl to max-age\<close>



subsection \<open>Further properties\<close>

text \<open>X1. \<open>parseSeal\<close> never throws: whatever the string, it returns the part before the
  first delimiter, together with the version it read or none.\<close>

theorem parseSeal_never_throws:
  "\<exists>v. parseSeal s = Inr (takeWhile (\<lambda>c. c \<noteq> versionDelimiter) s, v)"
  by (rule parseSeal_payload)

text \<open>X2. Both entry points refuse, with the three usage errors and in this order, an
  empty cookie name, an empty password, and a password set in which some secret has fewer
  than 32 characters.\<close>

theorem usage_errors:
  "(opt_cookieName so = [] \<longrightarrow>
      getIronSession L req res so = Threw missing_cookie_name
      \<and> getIronSessionFromCookieStore L store so = Threw missing_cookie_name)
   \<and> (opt_cookieName so \<noteq> [] \<and> opt_password so = PasswordString [] \<longrightarrow>
      getIronSession L req res so = Threw missing_password
      \<and> getIronSessionFromCookieStore L store so = Threw missing_password)
   \<and> (opt_cookieName so \<noteq> [] \<and> opt_password so \<noteq> PasswordString []
        \<and> list_ex (\<lambda>pw. length pw < 32)
             (map snd (normalizeStringPasswordToMap (opt_password so))) \<longrightarrow>
      getIronSession L req res so = Threw short_password
      \<and> getIronSessionFromCookieStore L store so = Threw short_password)"
  by (auto simp: getIronSession_def getIronSessionFromCookieStore_def check_options_def
      falsy_password_def split: password.splits)

theorem usage_errors_witness:
  "getIronSession demo_lib (Request None) (FetchResponse []) (demo_options\<lparr>opt_cookieName := []\<rparr>)
     = Threw missing_cookie_name
   \<and> getIronSession demo_lib (Request None) (FetchResponse [])
       (demo_options\<lparr>opt_password := PasswordString []\<rparr>) = Threw missing_password
   \<and> getIronSessionFromCookieStore demo_lib \<lparr>jar = [], written = []\<rparr>
       (demo_options\<lparr>opt_password := PasswordsMap [(''1'', demo_password), (''2'', ''short'')]\<rparr>)
       = Threw short_password"
  using
    usage_errors [of "demo_options\<lparr>opt_cookieName := []\<rparr>" demo_lib "Request None"
      "FetchResponse []" "\<lparr>jar = [], written = []\<rparr>"]
    usage_errors [of "demo_options\<lparr>opt_password := PasswordString []\<rparr>" demo_lib "Request None"
      "FetchResponse []" "\<lparr>jar = [], written = []\<rparr>"]
    usage_errors [of "demo_options\<lparr>opt_password :=
        PasswordsMap [(''1'', demo_password), (''2'', ''short'')]\<rparr>" demo_lib "Request None"
      "FetchResponse []" "\<lparr>jar = [], written = []\<rparr>"]
  by (simp add: demo_options_def normalizeStringPasswordToMap_def demo_password_def)

text \<open>X3. \<open>setCookie\<close> adds exactly one cookie to those the response carries: it appends
  to a Fetch response, and on a Node response whose headers are not sent it turns a
  missing header or a single value into a list first. On a Node response whose headers
  are sent it throws.\<close>

theorem setCookie_adds_one:
  "setCookie (FetchResponse cs) v = Inr (FetchResponse (cs @ [v]))
   \<and> setCookie (ServerResponse False NoHeader) v = Inr (ServerResponse False (ListHeader [v]))
   \<and> setCookie (ServerResponse False (SingleHeader x)) v
       = Inr (ServerResponse False (ListHeader [x, v]))
   \<and> setCookie (ServerResponse False (ListHeader xs)) v
       = Inr (ServerResponse False (ListHeader (xs @ [v])))
   \<and> setCookie (ServerResponse True h) v = Inl headers_locked
   \<and> (\<forall>res'. setCookie res v = Inr res' \<longrightarrow> set_cookies res' = set_cookies res @ [v])"
  by (intro conjI allI impI)
    (auto simp: setCookie_def header_list_def set_cookies_def split: response.splits if_splits)

theorem setCookie_adds_one_witness:
  "setCookie (FetchResponse [''a=1'']) ''b=2'' = Inr (FetchResponse [''a=1'', ''b=2''])
   \<and> set_cookies (FetchResponse [''a=1'', ''b=2'']) = set_cookies (FetchResponse [''a=1'']) @ [''b=2'']"
  using setCookie_adds_one [of "[''a=1'']" "''b=2''" _ _ _ "FetchResponse [''a=1'']"]
  by simp

lemma current_version_digits: "decimal (nat currentMajorVersion) = ''2''"
  by code_simp

text \<open>X4. Every token \<open>sealData\<close> returns is the encoded seal followed by the delimiter
  and the current major version, \<open>~2\<close>.\<close>

theorem token_carries_version:
  "sealData L rnd data opts = Inr tok \<longrightarrow>
     (\<exists>sb. sealBytes L rnd data = Inr sb \<and> tok = encodePayload L (toSeal L sb) @ ''~2'')"
  by (auto simp: sealData_def and_then_def encodeSeal_def versionDelimiter_def
      current_version_digits split: sum.splits)

theorem token_carries_version_witness:
  "sealData demo_lib demo_random demo_value demo_seal_options = Inr demo_token
   \<and> (\<exists>sb. sealBytes demo_lib demo_random demo_value = Inr sb
           \<and> demo_token = encodePayload demo_lib (toSeal demo_lib sb) @ ''~2'')"
  using token_carries_version [of demo_lib demo_random demo_value demo_seal_options demo_token]
    demo_sealData [of demo_seal_options]
  by simp

end
